theory Spec2Isabelle
  imports Main "HOL-Library.AList"
begin

section \<open>Failures\<close>

text \<open>
  Every exception the TypeScript can raise is a value.  The five \<open>Failure...\<close> classes are
  the ones of \<^verbatim>\<open>src/errors\<close> (each carries its message); \<open>TypeError\<close> is what the
  JavaScript runtime raises when a property of \<^verbatim>\<open>undefined\<close> is read or a non-function
  is called; \<open>NetworkError\<close> stands for a rejected network read.
\<close>

datatype failure =
    TypeError
  | NetworkError
  | FailureMissingArgument string
  | FailureOperationForbidden string
  | FailureEmptyContract string
  | FailureInvalidContract string
  | FailureInvalidAgreement string

section \<open>JavaScript containers\<close>

text \<open>
  A JavaScript \<^verbatim>\<open>Map\<close> is an association list in insertion order.  \<open>Map_new\<close> is the
  constructor from an iterable of pairs: a key given twice keeps its first position and
  its last value.  The sequence and the semantics of a taxonomy are read at the positions
  \<open>0, 1, 2, ...\<close> only, so their keys are natural numbers here: a key that is no position
  only counts towards the size of the map, as any key the walk does not reach does.
\<close>

type_synonym ('k, 'v) Map = "('k \<times> 'v) list"

definition Map_new :: "('k \<times> 'v) list \<Rightarrow> ('k, 'v) Map" where
  "Map_new pairs = foldl (\<lambda>m (k, v). AList.update k v m) [] pairs"

definition Map_get :: "('k, 'v) Map \<Rightarrow> 'k \<Rightarrow> 'v option" where
  "Map_get m k = map_of m k"

definition Map_keys :: "('k, 'v) Map \<Rightarrow> 'k list" where
  "Map_keys m = map fst m"

definition Map_values :: "('k, 'v) Map \<Rightarrow> 'v list" where
  "Map_values m = map snd m"

text \<open>
  \<^verbatim>\<open>xs[c]\<close> for a number \<open>c\<close>: \<^verbatim>\<open>undefined\<close> (here \<open>None\<close>) outside the array,
  also for a negative index.
\<close>

definition js_index :: "'a list \<Rightarrow> int \<Rightarrow> 'a option" where
  "js_index xs c = (if 0 \<le> c \<and> c < int (length xs) then Some (xs ! nat c) else None)"

text \<open>\<^verbatim>\<open>xs.slice(c)\<close>: a negative start counts from the end of the array.\<close>

definition js_slice :: "'a list \<Rightarrow> int \<Rightarrow> 'a list" where
  "js_slice xs c =
     (if c < 0 then drop (nat (max 0 (int (length xs) + c))) xs else drop (nat c) xs)"

section \<open>Transactions\<close>

text \<open>
  Of the SDK's transaction objects the repository reads the type of every transaction,
  the \<^verbatim>\<open>proof\<close> of a secret proof and the \<^verbatim>\<open>message.payload\<close> of a transfer; the
  recipient is the address a transaction was created for and the signer is what
  \<^verbatim>\<open>toAggregate\<close> attaches, which is whatever value the contract was given.  A field a
  transaction kind does not have is \<^verbatim>\<open>undefined\<close> (\<open>None\<close>).  The numbers are the SDK's
  \<^verbatim>\<open>TransactionType\<close> values.
\<close>

definition TRANSFER :: nat where "TRANSFER = 16724"
definition SECRET_PROOF :: nat where "SECRET_PROOF = 16978"
definition AGGREGATE_BONDED :: nat where "AGGREGATE_BONDED = 16961"
definition MOSAIC_ADDRESS_RESTRICTION :: nat where "MOSAIC_ADDRESS_RESTRICTION = 16977"

record Address =
  plain :: string
  networkType :: nat

record PublicAccount =
  publicKey :: string
  address :: "Address option"

text \<open>
  The value of a contract option has the type \<^verbatim>\<open>any\<close>.  The datatype lists the values
  the contracts are given: \<^verbatim>\<open>null\<close>, \<^verbatim>\<open>undefined\<close>, a string, a public account, a list of
  public accounts, a metadata bucket.  Record fields that would share a name across records
  carry a prefix (\<open>opt_\<close>, \<open>ident_\<close>, \<open>org_\<close>, \<open>bucket_\<close>).
\<close>

record MetadataBucket =
  bucket_name :: string
  bucket_code :: string
  bucket_website :: string
  bucket_contact :: string
  bucket_description :: string
  bucket_image :: string

datatype option_value =
    Null
  | Undefined
  | Text string
  | Account PublicAccount
  | AccountList "PublicAccount list"
  | Bucket MetadataBucket

record Transaction =
  tx_type :: nat
  tx_signer :: "option_value option"
  tx_recipient :: "Address option"
  tx_proof :: "string option"
  tx_message :: "string option"

record AggregateTransaction =
  agg_type :: nat
  innerTransactions :: "Transaction list"
  transactionInfo :: "string option"

section \<open>kernel/TaxonomyMap, kernel/SemanticsMap\<close>

record TaxonomyMapEntry =
  type :: nat
  required :: bool

record SemanticRuleset =
  bundleWith :: "nat list"
  repeatable :: bool
  minOccurences :: nat
  maxOccurences :: nat

type_synonym TaxonomyMap = "(nat, TaxonomyMapEntry) Map"
type_synonym SemanticsMap = "(nat, SemanticRuleset) Map"

section \<open>kernel/Taxonomy\<close>

record Taxonomy =
  name :: string
  sequence :: TaxonomyMap
  semantics :: SemanticsMap
  registeredTypes :: "nat list"
  repeatableTypes :: "nat list"

text \<open>
  \<^verbatim>\<open>getTransactionTypes\<close> collects the types of the sequence as keys of an object and
  reads them back with \<^verbatim>\<open>Object.keys\<close>, which lists integer keys in ascending order.
\<close>

definition getTransactionTypes :: "TaxonomyMap \<Rightarrow> nat list" where
  "getTransactionTypes seq =
     sort (foldl (\<lambda>uniqTypes cur. if type cur \<in> set uniqTypes then uniqTypes
                                   else uniqTypes @ [type cur])
                 [] (Map_values seq))"

text \<open>The constructor: the registered types are computed once, from the sequence given.\<close>

definition new_Taxonomy :: "string \<Rightarrow> TaxonomyMap \<Rightarrow> SemanticsMap \<Rightarrow> Taxonomy" where
  "new_Taxonomy n seq sem =
     \<lparr>name = n, sequence = seq, semantics = sem,
      registeredTypes = getTransactionTypes seq, repeatableTypes = []\<rparr>"

text \<open>\<^verbatim>\<open>!!type\<close> is false for the type \<open>0\<close>.\<close>

definition acceptsType :: "Taxonomy \<Rightarrow> nat \<Rightarrow> bool" where
  "acceptsType t ty \<longleftrightarrow>
     ty \<noteq> 0 \<and> length (registeredTypes t) > 0 \<and> ty \<in> set (registeredTypes t)"

definition acceptsRepeat :: "Taxonomy \<Rightarrow> nat \<Rightarrow> bool" where
  "acceptsRepeat t ty \<longleftrightarrow>
     ty \<noteq> 0 \<and> length (repeatableTypes t) > 0 \<and> ty \<in> set (repeatableTypes t)"

text \<open>\<^verbatim>\<open>setAcceptsRepeat\<close> mutates the taxonomy and returns it; here it returns the new one.\<close>

definition setAcceptsRepeat :: "Taxonomy \<Rightarrow> nat \<Rightarrow> Taxonomy" where
  "setAcceptsRepeat t ty =
     (if ty \<notin> set (registeredTypes t) then t
      else if ty \<notin> set (repeatableTypes t)
        then t\<lparr>repeatableTypes := repeatableTypes t @ [ty]\<rparr>
      else t)"

subsection \<open>validateBundle\<close>

text \<open>
  One pass of the inner \<^verbatim>\<open>for\<close> loop of \<^verbatim>\<open>validateBundle\<close>, over the entries that are
  left and the transactions from \<^verbatim>\<open>cursor + i\<close> on: \<open>Inr True\<close> when the last entry matched
  (\<^verbatim>\<open>isBundle = true\<close>), \<open>Inr False\<close> at the \<^verbatim>\<open>break\<close>.  An entry of the bundle is
  \<^verbatim>\<open>undefined\<close> when \<^verbatim>\<open>validate\<close> read it past the sequence; its \<^verbatim>\<open>type\<close> is read only
  after the transaction was found, and that read raises.
\<close>

fun bundle_pass :: "TaxonomyMapEntry option list \<Rightarrow> Transaction list \<Rightarrow> failure + bool" where
  "bundle_pass [] transactions = Inr True"
| "bundle_pass (bundled # entries) [] = Inr False"
| "bundle_pass (bundled # entries) (innerTx # transactions) =
     (case bundled of
        None \<Rightarrow> Inl TypeError
      | Some b \<Rightarrow> if tx_type innerTx \<noteq> type b then Inr False
                  else bundle_pass entries transactions)"

lemma bundle_pass_length:
  "bundle_pass entries transactions = Inr True \<Longrightarrow> length entries \<le> length transactions"
  by (induction entries transactions rule: bundle_pass.induct)
     (auto split: option.splits if_splits)

text \<open>
  The \<^verbatim>\<open>do ... while (isBundle === true)\<close> loop.  With no entries the inner loop never
  runs and \<^verbatim>\<open>isBundle\<close> keeps its initial \<^verbatim>\<open>false\<close>.
\<close>

function validateBundle_loop ::
  "TaxonomyMapEntry option list \<Rightarrow> Transaction list \<Rightarrow> nat \<Rightarrow> failure + nat" where
  "validateBundle_loop entries transactions cntFound =
     (if entries = [] then Inr cntFound
      else case bundle_pass entries (drop (cntFound * length entries) transactions) of
             Inl e \<Rightarrow> Inl e
           | Inr isBundle \<Rightarrow>
               if isBundle then validateBundle_loop entries transactions (cntFound + 1)
               else Inr cntFound)"
  by pat_completeness auto
termination
proof (relation "measure (\<lambda>(entries, transactions, cntFound).
                            Suc (length transactions) - cntFound * length entries)")
  show "wf (measure (\<lambda>(entries, transactions, cntFound).
                            Suc (length transactions) - cntFound * length entries))"
    by simp
next
  fix entries :: "TaxonomyMapEntry option list"
    and transactions :: "Transaction list" and cntFound :: nat and isBundle :: bool
  assume ne: "entries \<noteq> []"
    and pass: "bundle_pass entries (drop (cntFound * length entries) transactions) = Inr isBundle"
    and "isBundle"
  then have "length entries \<le> length transactions - cntFound * length entries"
    using bundle_pass_length [of entries "drop (cntFound * length entries) transactions"]
    by simp
  moreover have "0 < length entries" using ne by simp
  ultimately have "Suc (length transactions) - (cntFound * length entries + length entries)
      < Suc (length transactions) - cntFound * length entries"
    by arith
  then show "((entries, transactions, cntFound + 1), (entries, transactions, cntFound))
      \<in> measure (\<lambda>(entries, transactions, cntFound).
                    Suc (length transactions) - cntFound * length entries)"
    by (simp add: add.commute)
qed

definition validateBundle ::
  "TaxonomyMapEntry option list \<Rightarrow> Transaction list \<Rightarrow> failure + nat" where
  "validateBundle entries transactions = validateBundle_loop entries transactions 0"

subsection \<open>validate\<close>

text \<open>\<^verbatim>\<open>cursor = i - skip + bundled\<close>, a JavaScript number.\<close>

definition cursor_of :: "nat \<Rightarrow> nat \<Rightarrow> nat \<Rightarrow> int" where
  "cursor_of i skip bundled = int i - int skip + int bundled"

text \<open>\<^verbatim>\<open>!innerTx || innerTx.type !== entry.type\<close>\<close>

definition mismatch :: "Transaction option \<Rightarrow> TaxonomyMapEntry \<Rightarrow> bool" where
  "mismatch innerTx entry =
     (case innerTx of None \<Rightarrow> True | Some tx \<Rightarrow> tx_type tx \<noteq> type entry)"

text \<open>\<^verbatim>\<open>!!rules && rules.repeatable\<close>\<close>

definition is_repeatable :: "SemanticRuleset option \<Rightarrow> bool" where
  "is_repeatable rules = (case rules of None \<Rightarrow> False | Some r \<Rightarrow> repeatable r)"

text \<open>
  The bundle of a repeatable entry at position \<open>i\<close>: the entry, then
  \<^verbatim>\<open>this.sequence.get(i + b)\<close> for \<^verbatim>\<open>b = 1 .. rules.bundleWith.length - 1\<close>.
\<close>

definition bundle_of ::
  "TaxonomyMap \<Rightarrow> nat \<Rightarrow> TaxonomyMapEntry \<Rightarrow> SemanticRuleset \<Rightarrow> TaxonomyMapEntry option list"
  where
  "bundle_of seq i entry rules =
     Some entry # map (\<lambda>b. Map_get seq (i + b)) [1 ..< length (bundleWith rules)]"

text \<open>
  The second \<^verbatim>\<open>for\<close> loop of \<^verbatim>\<open>validate\<close>, from the loop variables \<open>i\<close>, \<open>skip\<close> and
  \<open>bundled\<close>.  In the repeatable branch the body sets \<^verbatim>\<open>i = i + bundle.length\<close> and the
  loop header then runs its \<^verbatim>\<open>i++\<close>.
\<close>

function validate_loop ::
  "Taxonomy \<Rightarrow> Transaction list \<Rightarrow> nat \<Rightarrow> nat \<Rightarrow> nat \<Rightarrow> failure + bool" where
  "validate_loop t ctrTxes i skip bundled =
     (if i < length (Map_keys (sequence t)) then
        (case Map_get (sequence t) i of
           None \<Rightarrow> Inl TypeError
         | Some entry \<Rightarrow>
             if \<not> required entry then
               (if mismatch (js_index ctrTxes (cursor_of i skip bundled)) entry
                then validate_loop t ctrTxes (i + 1) (skip + 1) bundled
                else validate_loop t ctrTxes (i + 1) skip bundled)
             else if is_repeatable (Map_get (semantics t) i) then
               (case validateBundle
                       (bundle_of (sequence t) i entry (the (Map_get (semantics t) i)))
                       (js_slice ctrTxes (cursor_of i skip bundled)) of
                  Inl e \<Rightarrow> Inl e
                | Inr numOccurences \<Rightarrow>
                    if numOccurences = 0 then Inr False
                    else validate_loop t ctrTxes
                           (i + length (bundle_of (sequence t) i entry
                                          (the (Map_get (semantics t) i))) + 1)
                           skip
                           (bundled + numOccurences *
                              length (bundle_of (sequence t) i entry
                                        (the (Map_get (semantics t) i)))))
             else if mismatch (js_index ctrTxes (cursor_of i skip bundled)) entry
               then Inr False
             else validate_loop t ctrTxes (i + 1) skip bundled)
      else Inr True)"
  by pat_completeness auto
termination
  by (relation "measure (\<lambda>(t, ctrTxes, i, skip, bundled). length (Map_keys (sequence t)) - i)")
     auto

definition validate :: "Taxonomy \<Rightarrow> AggregateTransaction \<Rightarrow> failure + bool" where
  "validate t contract =
     (if innerTransactions contract = [] then Inr False
      else if registeredTypes t = [] then Inr False
      else if \<not> list_all (\<lambda>innerTx. acceptsType t (tx_type innerTx))
                          (innerTransactions contract) then Inr False
      else validate_loop t (innerTransactions contract) 0 0 0)"

subsection \<open>The walk as a step relation\<close>

text \<open>
  One iteration of the second loop of \<^verbatim>\<open>validate\<close> on the loop variables
  \<open>(i, skip, bundled)\<close>: the variables the next iteration starts with, or \<open>None\<close> when the
  loop ends, returns or raises in this iteration.  \<open>walk_reaches\<close> holds of the loop
  variables of every iteration the walk runs.
\<close>

definition validate_step ::
  "Taxonomy \<Rightarrow> Transaction list \<Rightarrow> nat \<times> nat \<times> nat \<Rightarrow> (nat \<times> nat \<times> nat) option" where
  "validate_step t ctrTxes s =
     (case s of (i, skip, bundled) \<Rightarrow>
        if i < length (Map_keys (sequence t)) then
          (case Map_get (sequence t) i of
             None \<Rightarrow> None
           | Some entry \<Rightarrow>
               if \<not> required entry then
                 (if mismatch (js_index ctrTxes (cursor_of i skip bundled)) entry
                  then Some (i + 1, skip + 1, bundled)
                  else Some (i + 1, skip, bundled))
               else if is_repeatable (Map_get (semantics t) i) then
                 (case validateBundle
                         (bundle_of (sequence t) i entry (the (Map_get (semantics t) i)))
                         (js_slice ctrTxes (cursor_of i skip bundled)) of
                    Inl e \<Rightarrow> None
                  | Inr numOccurences \<Rightarrow>
                      if numOccurences = 0 then None
                      else Some (i + length (bundle_of (sequence t) i entry
                                               (the (Map_get (semantics t) i))) + 1,
                                 skip,
                                 bundled + numOccurences *
                                   length (bundle_of (sequence t) i entry
                                             (the (Map_get (semantics t) i)))))
               else if mismatch (js_index ctrTxes (cursor_of i skip bundled)) entry
                 then None
               else Some (i + 1, skip, bundled))
        else None)"

inductive walk_reaches :: "Taxonomy \<Rightarrow> Transaction list \<Rightarrow> nat \<times> nat \<times> nat \<Rightarrow> bool"
  for t :: Taxonomy and ctrTxes :: "Transaction list" where
  start: "walk_reaches t ctrTxes (0, 0, 0)"
| step: "walk_reaches t ctrTxes s \<Longrightarrow> validate_step t ctrTxes s = Some s'
           \<Longrightarrow> walk_reaches t ctrTxes s'"

section \<open>models/ContractOption, models/AllowanceResult, kernel/Context\<close>

record ContractOption =
  opt_name :: string
  opt_value :: option_value

record AllowanceResult =
  status :: bool
  message :: "string option"

definition new_AllowanceResult :: "bool \<Rightarrow> AllowanceResult" where
  "new_AllowanceResult s = \<lparr>status = s, message = None\<rparr>"

record Reader =
  gatewayUrl :: string
  reader_networkType :: nat

record TransactionParameters =
  epochAjustment :: nat
  maxFeeInt :: "nat option"

record Context =
  revision :: nat
  actor :: PublicAccount
  reader :: Reader
  parameters :: TransactionParameters
  argv :: "ContractOption list option"

text \<open>
  The key provider of a context (\<^verbatim>\<open>signer\<close>) is passed through to the SDK only and is left
  out.  \<^verbatim>\<open>Context.getInput\<close>: the value of the first option of that name, else the default.
\<close>

definition getInput :: "Context \<Rightarrow> string \<Rightarrow> option_value \<Rightarrow> option_value" where
  "getInput ctx n defaultValue =
     (case argv ctx of
        None \<Rightarrow> defaultValue
      | Some opts \<Rightarrow>
          if opts = [] then defaultValue
          else (case find (\<lambda>opt. opt_name opt = n) opts of
                  None \<Rightarrow> defaultValue
                | Some it \<Rightarrow> opt_value it))"

definition setInput :: "Context \<Rightarrow> string \<Rightarrow> option_value \<Rightarrow> Context" where
  "setInput ctx n v =
     ctx\<lparr>argv := Some ((case argv ctx of None \<Rightarrow> [] | Some opts \<Rightarrow> opts)
                        @ [\<lparr>opt_name = n, opt_value = v\<rparr>])\<rparr>"

section \<open>kernel/BaseContract, contracts/Executable\<close>

record AssetIdentifier =
  ident_id :: string
  ident_target :: PublicAccount

record MosaicInfo =
  mosaic_id :: string

datatype ContractClass = CreateAgreement | CommitAgreement | CreateDAO | CreateVote | Vote

text \<open>
  The state of a contract object: the class it was constructed as and the fields of
  \<^verbatim>\<open>Executable\<close>.  The constructor sets \<^verbatim>\<open>target\<close> from the identifier; the other fields
  start unset.
\<close>

record Executable =
  cls :: ContractClass
  exec_context :: Context
  exec_identifier :: AssetIdentifier
  agreement :: "AggregateTransaction option"
  target :: PublicAccount
  operators :: "Address list"
  mosaicInfo :: "MosaicInfo option"
  metadata :: "MetadataBucket option"

definition new_Executable :: "ContractClass \<Rightarrow> Context \<Rightarrow> AssetIdentifier \<Rightarrow> Executable" where
  "new_Executable c ctx ident =
     \<lparr>cls = c, exec_context = ctx, exec_identifier = ident, agreement = None,
      target = ident_target ident, operators = [], mosaicInfo = None, metadata = None\<rparr>"

text \<open>
  \<^verbatim>\<open>assertHasMandatoryArguments(argv, fields)\<close> reads every field from the context; its
  \<^verbatim>\<open>argv\<close> parameter is not used.
\<close>

fun assertHasMandatoryArguments ::
  "Context \<Rightarrow> ContractOption list option \<Rightarrow> string list \<Rightarrow> failure + bool" where
  "assertHasMandatoryArguments ctx argv' [] = Inr True"
| "assertHasMandatoryArguments ctx argv' (field # fields') =
     (if getInput ctx field Null = Null
      then Inl (FailureMissingArgument (''Missing argument '' @ [CHR 0x22] @ field @ [CHR 0x22]))
      else assertHasMandatoryArguments ctx argv' fields')"

text \<open>
  The SDK's \<^verbatim>\<open>a.equals(b)\<close> on addresses is \<^verbatim>\<open>false\<close> unless \<open>b\<close> is an address with the
  same plain form and network type; reading \<^verbatim>\<open>.equals\<close> of a missing address raises.
\<close>

definition address_equals :: "Address option \<Rightarrow> Address option \<Rightarrow> failure + bool" where
  "address_equals a b = (case a of None \<Rightarrow> Inl TypeError | Some x \<Rightarrow> Inr (b = Some x))"

text \<open>\<^verbatim>\<open>v.address\<close> of an input value; only a public account has one.\<close>

definition address_of_value :: "option_value \<Rightarrow> Address option" where
  "address_of_value v = (case v of Account pa \<Rightarrow> address pa | _ \<Rightarrow> None)"

text \<open>\<^verbatim>\<open>new PublicAccount()\<close>, the default of the \<^verbatim>\<open>target\<close> input: no key, no address.\<close>

definition empty_PublicAccount :: PublicAccount where
  "empty_PublicAccount = \<lparr>publicKey = [], address = None\<rparr>"

subsection \<open>canExecute, class by class\<close>

definition Executable_canExecute ::
  "string list \<Rightarrow> Executable \<Rightarrow> PublicAccount \<Rightarrow> ContractOption list option
     \<Rightarrow> failure + AllowanceResult" where
  "Executable_canExecute arguments c actor' argv' =
     (case assertHasMandatoryArguments (exec_context c) argv' arguments of
        Inl e \<Rightarrow> Inl e
      | Inr _ \<Rightarrow>
          (case address_equals (address actor') (address (target c)) of
             Inl e \<Rightarrow> Inl e
           | Inr isOperator \<Rightarrow> Inr (new_AllowanceResult isOperator)))"

definition CreateAgreement_arguments :: "string list" where
  "CreateAgreement_arguments = [''password'', ''mnemonic'', ''path'', ''operators'']"

definition CreateAgreement_canExecute ::
  "Executable \<Rightarrow> PublicAccount \<Rightarrow> ContractOption list option \<Rightarrow> failure + AllowanceResult"
  where
  "CreateAgreement_canExecute c actor' argv' =
     (case assertHasMandatoryArguments (exec_context c) argv' CreateAgreement_arguments of
        Inl e \<Rightarrow> Inl e
      | Inr _ \<Rightarrow> Inr (new_AllowanceResult (agreement c = None)))"

definition CommitAgreement_arguments :: "string list" where
  "CommitAgreement_arguments = [''target'', ''agreement'']"

definition CommitAgreement_canExecute ::
  "Executable \<Rightarrow> PublicAccount \<Rightarrow> ContractOption list option \<Rightarrow> failure + AllowanceResult"
  where
  "CommitAgreement_canExecute c actor' argv' =
     (case assertHasMandatoryArguments (exec_context c) argv' CommitAgreement_arguments of
        Inl e \<Rightarrow> Inl e
      | Inr _ \<Rightarrow>
          if agreement c = None then
            (case address_equals
                    (address_of_value (getInput (exec_context c) ''target''
                                         (Account empty_PublicAccount)))
                    (address (target c)) of
               Inl e \<Rightarrow> Inl e
             | Inr same \<Rightarrow> Inr (new_AllowanceResult same))
          else Inr (new_AllowanceResult False))"

definition CreateDAO_arguments :: "string list" where
  "CreateDAO_arguments = [''target'', ''operators'', ''metadata'']"

definition CreateDAO_canExecute ::
  "Executable \<Rightarrow> PublicAccount \<Rightarrow> ContractOption list option \<Rightarrow> failure + AllowanceResult"
  where
  "CreateDAO_canExecute c actor' argv' =
     (case assertHasMandatoryArguments (exec_context c) argv' CreateDAO_arguments of
        Inl e \<Rightarrow> Inl e
      | Inr _ \<Rightarrow>
          if agreement c \<noteq> None then
            (case address_equals
                    (address_of_value (getInput (exec_context c) ''target''
                                         (Account empty_PublicAccount)))
                    (address (target c)) of
               Inl e \<Rightarrow> Inl e
             | Inr same \<Rightarrow> Inr (new_AllowanceResult same))
          else Inr (new_AllowanceResult False))"

definition CreateVote_arguments :: "string list" where
  "CreateVote_arguments = [''operator'']"

definition CreateVote_canExecute ::
  "Executable \<Rightarrow> PublicAccount \<Rightarrow> ContractOption list option \<Rightarrow> failure + AllowanceResult"
  where
  "CreateVote_canExecute c actor' argv' =
     (case assertHasMandatoryArguments (exec_context c) argv' CreateVote_arguments of
        Inl e \<Rightarrow> Inl e
      | Inr _ \<Rightarrow> Inr (new_AllowanceResult True))"

subsection \<open>Names, descriptors and transactions\<close>

text \<open>A number in a string concatenation is written in decimal.\<close>

definition digit_char :: "nat \<Rightarrow> char" where
  "digit_char d = ''0123456789'' ! d"

fun string_of_nat :: "nat \<Rightarrow> string" where
  "string_of_nat n =
     (if n < 10 then [digit_char n]
      else string_of_nat (n div 10) @ [digit_char (n mod 10)])"

declare string_of_nat.simps [simp del]

text \<open>
  What is not embedded: the \<^verbatim>\<open>Vote\<close> contract, whose source file is not among the
  repository's files at hand; the transaction builders of \<^verbatim>\<open>CreateAgreement\<close> and
  \<^verbatim>\<open>CreateDAO\<close>, which are made of calls to the SDK's key derivation and transaction
  factories; and the SDK's \<^verbatim>\<open>serialize\<close>, which gives the payload of an aggregate or
  raises for an aggregate it cannot encode (a signer that is no public account, a transfer
  without a recipient).  They are parameters of the model.
\<close>

record External =
  Vote_name :: string
  Vote_canExecute ::
    "Executable \<Rightarrow> PublicAccount \<Rightarrow> ContractOption list option \<Rightarrow> failure + AllowanceResult"
  Vote_transactions :: "Executable \<Rightarrow> failure + Transaction list"
  CreateAgreement_transactions :: "Executable \<Rightarrow> failure + Transaction list"
  CreateDAO_transactions :: "Executable \<Rightarrow> failure + Transaction list"
  serialize :: "AggregateTransaction \<Rightarrow> failure + string"

definition contract_name :: "External \<Rightarrow> Executable \<Rightarrow> string" where
  "contract_name ext c =
     (case cls c of
        CreateAgreement \<Rightarrow> ''CreateAgreement''
      | CommitAgreement \<Rightarrow> ''CommitAgreement''
      | CreateDAO \<Rightarrow> ''CreateDAO''
      | CreateVote \<Rightarrow> ''CreateVote''
      | Vote \<Rightarrow> Vote_name ext)"

definition CommitAgreement_descriptor :: "nat \<Rightarrow> AssetIdentifier \<Rightarrow> string" where
  "CommitAgreement_descriptor revision' ident =
     ''Governable(v'' @ string_of_nat revision' @ '')'' @ '':commit-agreement:'' @ ident_id ident"

text \<open>
  The three transactions of \<^verbatim>\<open>CommitAgreement\<close>: a secret proof for the target's address
  and two transfers to \<^verbatim>\<open>agreement.address\<close>, each given the \<^verbatim>\<open>agreement\<close> input as its
  signer.  The input is whatever value the context holds: reading \<^verbatim>\<open>.address\<close> of
  \<^verbatim>\<open>null\<close> or \<^verbatim>\<open>undefined\<close> raises, any other value gives its address or \<^verbatim>\<open>undefined\<close>,
  and the factories and \<^verbatim>\<open>toAggregate\<close> accept what they are given.
\<close>

definition CommitAgreement_transactions :: "Executable \<Rightarrow> failure + Transaction list" where
  "CommitAgreement_transactions c =
     (let agreement' = getInput (exec_context c) ''agreement'' (Account empty_PublicAccount)
      in if agreement' = Null \<or> agreement' = Undefined then Inl TypeError
         else
          Inr [\<lparr>tx_type = SECRET_PROOF, tx_signer = Some agreement',
                tx_recipient = address (target c),
                tx_proof = Some (ident_id (exec_identifier c)), tx_message = None\<rparr>,
               \<lparr>tx_type = TRANSFER, tx_signer = Some agreement',
                tx_recipient = address_of_value agreement',
                tx_proof = None, tx_message = Some (publicKey (target c))\<rparr>,
               \<lparr>tx_type = TRANSFER, tx_signer = Some agreement',
                tx_recipient = address_of_value agreement',
                tx_proof = None,
                tx_message = Some (CommitAgreement_descriptor (revision (exec_context c))
                                     (exec_identifier c))\<rparr>])"

text \<open>\<^verbatim>\<open>CreateVote\<close> builds no transaction.\<close>

definition CreateVote_transactions :: "Executable \<Rightarrow> failure + Transaction list" where
  "CreateVote_transactions c = Inr []"

subsection \<open>Dynamic dispatch\<close>

definition canExecute ::
  "External \<Rightarrow> Executable \<Rightarrow> PublicAccount \<Rightarrow> ContractOption list option
     \<Rightarrow> failure + AllowanceResult" where
  "canExecute ext c actor' argv' =
     (case cls c of
        CreateAgreement \<Rightarrow> CreateAgreement_canExecute c actor' argv'
      | CommitAgreement \<Rightarrow> CommitAgreement_canExecute c actor' argv'
      | CreateDAO \<Rightarrow> CreateDAO_canExecute c actor' argv'
      | CreateVote \<Rightarrow> CreateVote_canExecute c actor' argv'
      | Vote \<Rightarrow> Vote_canExecute ext c actor' argv')"

definition transactions :: "External \<Rightarrow> Executable \<Rightarrow> failure + Transaction list" where
  "transactions ext c =
     (case cls c of
        CreateAgreement \<Rightarrow> CreateAgreement_transactions ext c
      | CommitAgreement \<Rightarrow> CommitAgreement_transactions c
      | CreateDAO \<Rightarrow> CreateDAO_transactions ext c
      | CreateVote \<Rightarrow> CreateVote_transactions c
      | Vote \<Rightarrow> Vote_transactions ext c)"

subsection \<open>execute\<close>

definition assertExecutionAllowance ::
  "External \<Rightarrow> Executable \<Rightarrow> PublicAccount \<Rightarrow> ContractOption list option \<Rightarrow> failure + bool"
  where
  "assertExecutionAllowance ext c actor' argv' =
     (case canExecute ext c actor' argv' of
        Inl e \<Rightarrow> Inl e
      | Inr authResult \<Rightarrow>
          if \<not> status authResult
          then Inl (FailureOperationForbidden
                      (''Operation forbidden ('' @ contract_name ext c @ '')''))
          else Inr True)"

text \<open>\<^verbatim>\<open>AggregateTransaction.createBonded\<close>: an unconfirmed bonded aggregate of the list.\<close>

definition createBonded :: "Transaction list \<Rightarrow> AggregateTransaction" where
  "createBonded txs =
     \<lparr>agg_type = AGGREGATE_BONDED, innerTransactions = txs, transactionInfo = None\<rparr>"

definition prepare :: "External \<Rightarrow> Executable \<Rightarrow> failure + AggregateTransaction" where
  "prepare ext c =
     (case transactions ext c of
        Inl e \<Rightarrow> Inl e
      | Inr txs \<Rightarrow>
          if txs = []
          then Inl (FailureEmptyContract
                      ''No transactions result from the execution of this contract.'')
          else Inr (createBonded txs))"

text \<open>
  A transaction URI holds the payload that \<^verbatim>\<open>contract.serialize()\<close> returns.  The
  serialization is the last step of \<^verbatim>\<open>execute\<close> and can raise.
\<close>

datatype TransactionURI = TransactionURI string

definition execute ::
  "External \<Rightarrow> Executable \<Rightarrow> PublicAccount \<Rightarrow> ContractOption list option
     \<Rightarrow> failure + TransactionURI" where
  "execute ext c actor' argv' =
     (case assertExecutionAllowance ext c actor' argv' of
        Inl e \<Rightarrow> Inl e
      | Inr _ \<Rightarrow>
          (case prepare ext c of
             Inl e \<Rightarrow> Inl e
           | Inr contract \<Rightarrow>
               (case serialize ext contract of
                  Inl e \<Rightarrow> Inl e
                | Inr payload \<Rightarrow> Inr (TransactionURI payload))))"

section \<open>services/AgreementService, services/MultisigService\<close>

text \<open>
  \<^verbatim>\<open>verifyAuthenticity\<close>.  The payload of a transaction without a message cannot be read:
  \<^verbatim>\<open>message.payload\<close> raises there.  The \<^verbatim>\<open>&&\<close> chain stops at the first false conjunct.
\<close>

definition verifyAuthenticity ::
  "Context \<Rightarrow> AssetIdentifier \<Rightarrow> AggregateTransaction option \<Rightarrow> failure + bool" where
  "verifyAuthenticity ctx ident agreementTx =
     (case agreementTx of
        None \<Rightarrow> Inr False
      | Some tx \<Rightarrow>
          if agg_type tx \<noteq> AGGREGATE_BONDED then Inr False
          else if innerTransactions tx = [] then Inr False
          else if length (innerTransactions tx) \<noteq> 3 then Inr False
          else if transactionInfo tx = None then Inr False
          else if tx_proof (innerTransactions tx ! 0) \<noteq> Some (ident_id ident) then Inr False
          else (case tx_message (innerTransactions tx ! 1) of
                  None \<Rightarrow> Inl TypeError
                | Some targetAgree \<Rightarrow>
                    if targetAgree \<noteq> publicKey (ident_target ident) then Inr False
                    else (case tx_message (innerTransactions tx ! 2) of
                            None \<Rightarrow> Inl TypeError
                          | Some execProof \<Rightarrow>
                              Inr (execProof
                                     = CommitAgreement_descriptor (revision ctx) ident))))"

record MultisigAccountInfo =
  cosignatoryAddresses :: "Address list"

record MultisigAccountGraphInfo =
  multisigEntries :: "(int, MultisigAccountInfo list) Map"

text \<open>\<^verbatim>\<open>xs.reduce(f)\<close> with no initial value raises on the empty array.\<close>

definition js_reduce :: "('a \<Rightarrow> 'a \<Rightarrow> 'a) \<Rightarrow> 'a list \<Rightarrow> failure + 'a" where
  "js_reduce f xs = (case xs of [] \<Rightarrow> Inl TypeError | x # rest \<Rightarrow> Inr (foldl f x rest))"

text \<open>
  \<^verbatim>\<open>getMultisigAccountInfoFromGraph\<close>: the keys from top to bottom, their entries, the
  non-empty ones, reduced with \<^verbatim>\<open>(prev, it) => [...it]\<close>.
\<close>

definition getMultisigAccountInfoFromGraph ::
  "MultisigAccountGraphInfo \<Rightarrow> failure + MultisigAccountInfo list" where
  "getMultisigAccountInfoFromGraph graph =
     js_reduce (\<lambda>prev it. it)
       (filter (\<lambda>x. length x > 0)
          (map (\<lambda>key. case Map_get (multisigEntries graph) key of None \<Rightarrow> [] | Some x \<Rightarrow> x)
               (rev (sort (Map_keys (multisigEntries graph))))))"

section \<open>DistributedOrganization\<close>

text \<open>
  The outcome of a network read.  A call that returns an observable either raises at once
  or gives an observable that emits a value or errors; an \<^verbatim>\<open>async\<close> service method resolves
  or rejects.
\<close>

datatype 'a observable = Emits 'a | Errors failure

record Network =
  readTransactionFromNetwork :: "string \<Rightarrow> failure + AggregateTransaction option"
  getMosaic :: "AssetIdentifier \<Rightarrow> failure + MosaicInfo option observable"
  getMultisigAccountGraphInfo ::
    "Address option \<Rightarrow> failure + MultisigAccountGraphInfo observable"
  readMetadataFromNetwork :: "Address option \<Rightarrow> failure + MetadataBucket"

text \<open>
  The organization.  Its identifier is a hash of its name, target and source, computed by
  \<^verbatim>\<open>AssetIdentifier.createForSource\<close>; the hash is the field \<open>identifier_id\<close>.
\<close>

record DistributedOrganization =
  org_name :: string
  org_reader :: Reader
  agreementHash :: "string option"
  identifier_id :: string
  org_agreement :: "AggregateTransaction option"
  org_target :: PublicAccount
  org_mosaicInfo :: "MosaicInfo option"
  org_operators :: "Address list"
  org_metadata :: "MetadataBucket option"

definition org_identifier :: "DistributedOrganization \<Rightarrow> AssetIdentifier" where
  "org_identifier org = \<lparr>ident_id = identifier_id org, ident_target = org_target org\<rparr>"

definition Revision :: nat where "Revision = 1"

definition new_TransactionParameters :: TransactionParameters where
  "new_TransactionParameters = \<lparr>epochAjustment = 1573430400, maxFeeInt = None\<rparr>"

definition getContext ::
  "DistributedOrganization \<Rightarrow> PublicAccount \<Rightarrow> TransactionParameters
     \<Rightarrow> ContractOption list option \<Rightarrow> Context" where
  "getContext org actor' parameters' argv' =
     \<lparr>revision = Revision, actor = actor', reader = org_reader org,
      parameters = parameters', argv = argv'\<rparr>"

subsection \<open>synchronize\<close>

text \<open>The three reads after the agreement was verified, each in its own \<^verbatim>\<open>try\<close> block.\<close>

definition sync_mosaicInfo :: "Network \<Rightarrow> DistributedOrganization \<Rightarrow> DistributedOrganization"
  where
  "sync_mosaicInfo net org =
     (case getMosaic net (org_identifier org) of
        Inl e \<Rightarrow> org
      | Inr (Errors e) \<Rightarrow> org\<lparr>org_mosaicInfo := None\<rparr>
      | Inr (Emits info) \<Rightarrow> org\<lparr>org_mosaicInfo := info\<rparr>)"

definition read_operators :: "Network \<Rightarrow> DistributedOrganization \<Rightarrow> failure + Address list"
  where
  "read_operators net org =
     (case getMultisigAccountGraphInfo net (address (org_target org)) of
        Inl e \<Rightarrow> Inl e
      | Inr (Errors e) \<Rightarrow> Inl e
      | Inr (Emits graph) \<Rightarrow>
          (case getMultisigAccountInfoFromGraph graph of
             Inl e \<Rightarrow> Inl e
           | Inr infos \<Rightarrow> js_reduce (\<lambda>prev it. prev @ it) (map cosignatoryAddresses infos)))"

definition sync_operators :: "Network \<Rightarrow> DistributedOrganization \<Rightarrow> DistributedOrganization"
  where
  "sync_operators net org =
     (case read_operators net org of
        Inl e \<Rightarrow> org
      | Inr ops \<Rightarrow> org\<lparr>org_operators := ops\<rparr>)"

definition sync_metadata :: "Network \<Rightarrow> DistributedOrganization \<Rightarrow> DistributedOrganization"
  where
  "sync_metadata net org =
     (case readMetadataFromNetwork net (address (org_target org)) of
        Inl e \<Rightarrow> org
      | Inr bucket \<Rightarrow> org\<lparr>org_metadata := Some bucket\<rparr>)"

text \<open>
  \<^verbatim>\<open>synchronize\<close> returns its result and the organization as it left it.  The agreement
  read is stored before it is verified.
\<close>

definition synchronize ::
  "Network \<Rightarrow> DistributedOrganization \<Rightarrow> (failure + bool) \<times> DistributedOrganization" where
  "synchronize net org =
     (case agreementHash org of
        None \<Rightarrow> (Inr True, org)
      | Some hash \<Rightarrow>
          if hash = [] then (Inr True, org)
          else (case readTransactionFromNetwork net hash of
                  Inl e \<Rightarrow> (Inl e, org)
                | Inr tx \<Rightarrow>
                    (case verifyAuthenticity
                            (getContext org (org_target org) new_TransactionParameters None)
                            (org_identifier org) tx of
                       Inl e \<Rightarrow> (Inl e, org\<lparr>org_agreement := tx\<rparr>)
                     | Inr authentic \<Rightarrow>
                         if \<not> authentic
                         then (Inl (FailureInvalidAgreement
                                 ''Authenticity verification failed for DAO launch agreement.''),
                               org\<lparr>org_agreement := tx\<rparr>)
                         else (Inr True,
                               sync_metadata net
                                 (sync_operators net
                                    (sync_mosaicInfo net (org\<lparr>org_agreement := tx\<rparr>)))))))"

subsection \<open>Dispatch by name\<close>

text \<open>
  \<^verbatim>\<open>DigitalContracts\<close> is a module-level object.  Its object literal gives it five
  properties, the contract constructors.
\<close>

definition DigitalContracts :: "(string \<times> ContractClass) list" where
  "DigitalContracts =
     [(''CreateAgreement'', CreateAgreement),
      (''CommitAgreement'', CommitAgreement),
      (''CreateDAO'', CreateDAO),
      (''CreateVote'', CreateVote),
      (''Vote'', Vote)]"

text \<open>
  The object is not frozen, and the repository itself assigns to it: the dispatch of the
  name \<^verbatim>\<open>valueOf\<close> returns the object, and the four assignments that should fill a
  contract then add the properties \<^verbatim>\<open>mosaicInfo\<close>, \<^verbatim>\<open>operators\<close>, \<^verbatim>\<open>agreement\<close> and
  \<^verbatim>\<open>metadata\<close> to it.  These assigned properties are the state of the table; every
  dispatch takes the state and returns it.  No assignment has one of the five names, so
  the constructors stay.
\<close>

datatype assigned_value =
    MosaicInfoValue "MosaicInfo option"
  | OperatorsValue "Address list"
  | AgreementValue "AggregateTransaction option"
  | MetadataValue "MetadataBucket option"

type_synonym AssignedProperties = "(string, assigned_value) Map"

text \<open>\<^verbatim>\<open>!!v\<close> of an assigned value: \<^verbatim>\<open>undefined\<close> is false, an object or an array is true.\<close>

definition truthy :: "assigned_value \<Rightarrow> bool" where
  "truthy v =
     (case v of
        MosaicInfoValue info \<Rightarrow> info \<noteq> None
      | OperatorsValue ops \<Rightarrow> True
      | AgreementValue tx \<Rightarrow> tx \<noteq> None
      | MetadataValue bucket \<Rightarrow> bucket \<noteq> None)"

text \<open>
  \<^verbatim>\<open>DigitalContracts\<close> is a plain object, so \<^verbatim>\<open>DigitalContracts[command]\<close> also finds the
  properties every object inherits.  All of them are truthy and none is a contract
  constructor.
\<close>

definition Object_prototype_properties :: "string list" where
  "Object_prototype_properties =
     [''constructor'', ''__defineGetter__'', ''__defineSetter__'', ''hasOwnProperty'',
      ''__lookupGetter__'', ''__lookupSetter__'', ''isPrototypeOf'', ''propertyIsEnumerable'',
      ''toString'', ''valueOf'', ''__proto__'', ''toLocaleString'']"

text \<open>
  What \<^verbatim>\<open>getContract\<close> returns: a contract; the table itself, from \<^verbatim>\<open>valueOf\<close>; the
  context it was given, from \<^verbatim>\<open>constructor\<close>; or a value that is no object (a string from
  \<^verbatim>\<open>toString\<close> and \<^verbatim>\<open>toLocaleString\<close>, \<^verbatim>\<open>false\<close> from \<^verbatim>\<open>hasOwnProperty\<close>,
  \<^verbatim>\<open>isPrototypeOf\<close> and \<^verbatim>\<open>propertyIsEnumerable\<close>, \<^verbatim>\<open>undefined\<close> from
  \<^verbatim>\<open>__lookupGetter__\<close> and \<^verbatim>\<open>__lookupSetter__\<close>).
\<close>

datatype dispatched = Contract Executable | TheTable | TheContext Context | NoObject

text \<open>
  \<^verbatim>\<open>getContract\<close>.  An own property is found first: a constructor is called; an assigned
  value that is truthy passes the guard and the call of it raises; a falsy one fails the
  guard.  Of the inherited properties, \<^verbatim>\<open>__defineGetter__\<close> and \<^verbatim>\<open>__defineSetter__\<close>
  raise for the identifier, which is no function, and \<^verbatim>\<open>__proto__\<close> is no function.
\<close>

definition getContract ::
  "AssignedProperties \<Rightarrow> AssetIdentifier \<Rightarrow> string \<Rightarrow> Context \<Rightarrow> failure + dispatched"
  where
  "getContract assigned governAssetId command ctx =
     (case map_of DigitalContracts command of
        Some c \<Rightarrow> Inr (Contract (new_Executable c ctx governAssetId))
      | None \<Rightarrow>
          (case Map_get assigned command of
             Some v \<Rightarrow>
               if truthy v then Inl TypeError
               else Inl (FailureInvalidContract ''Invalid digital contract name.'')
           | None \<Rightarrow>
               if command = ''valueOf'' then Inr TheTable
               else if command \<in> set [''__defineGetter__'', ''__defineSetter__'', ''__proto__'']
                 then Inl TypeError
               else if command = ''constructor'' then Inr (TheContext ctx)
               else if command \<in> set Object_prototype_properties then Inr NoObject
               else Inl (FailureInvalidContract ''Invalid digital contract name.'')))"

text \<open>The four assignments that copy the synchronized data into the contract.\<close>

definition populate :: "DistributedOrganization \<Rightarrow> Executable \<Rightarrow> Executable" where
  "populate org cmdFn =
     cmdFn\<lparr>mosaicInfo := org_mosaicInfo org, operators := org_operators org,
            agreement := org_agreement org, metadata := org_metadata org\<rparr>"

text \<open>The names of the four assignments, and the assignments when what was dispatched is
  the table.\<close>

definition assigned_names :: "string list" where
  "assigned_names = [''mosaicInfo'', ''operators'', ''agreement'', ''metadata'']"

definition populate_table ::
  "DistributedOrganization \<Rightarrow> AssignedProperties \<Rightarrow> AssignedProperties" where
  "populate_table org assigned =
     AList.update ''metadata'' (MetadataValue (org_metadata org))
       (AList.update ''agreement'' (AgreementValue (org_agreement org))
          (AList.update ''operators'' (OperatorsValue (org_operators org))
             (AList.update ''mosaicInfo'' (MosaicInfoValue (org_mosaicInfo org)) assigned)))"

text \<open>
  The methods of the organization return their result and the state of the table.  On
  the table, \<^verbatim>\<open>canExecute\<close> and \<^verbatim>\<open>execute\<close> are no functions and the call raises after the
  four assignments.  So it does on the context, which is an object of this one call: what
  is assigned to it is gone with it.  On a value that is no object the assignments or the
  call raise.
\<close>

definition org_canExecute ::
  "External \<Rightarrow> AssignedProperties \<Rightarrow> DistributedOrganization \<Rightarrow> PublicAccount
     \<Rightarrow> AssetIdentifier \<Rightarrow> string \<Rightarrow> ContractOption list
     \<Rightarrow> (failure + AllowanceResult) \<times> AssignedProperties" where
  "org_canExecute ext assigned org actor' governAssetId contract argv' =
     (case getContract assigned governAssetId contract
             (getContext org actor' new_TransactionParameters (Some argv')) of
        Inl e \<Rightarrow> (Inl e, assigned)
      | Inr (Contract cmdFn) \<Rightarrow>
          (canExecute ext (populate org cmdFn) actor' (Some argv'), assigned)
      | Inr TheTable \<Rightarrow> (Inl TypeError, populate_table org assigned)
      | Inr (TheContext ctx) \<Rightarrow> (Inl TypeError, assigned)
      | Inr NoObject \<Rightarrow> (Inl TypeError, assigned))"

definition org_executeOffline ::
  "External \<Rightarrow> AssignedProperties \<Rightarrow> DistributedOrganization \<Rightarrow> PublicAccount
     \<Rightarrow> AssetIdentifier \<Rightarrow> string \<Rightarrow> TransactionParameters \<Rightarrow> ContractOption list
     \<Rightarrow> (failure + TransactionURI) \<times> AssignedProperties" where
  "org_executeOffline ext assigned org actor' governAssetId contract parameters' argv' =
     (case getContract assigned governAssetId contract
             (getContext org actor' parameters' (Some argv')) of
        Inl e \<Rightarrow> (Inl e, assigned)
      | Inr (Contract cmdFn) \<Rightarrow>
          (execute ext (populate org cmdFn) actor' (Some argv'), assigned)
      | Inr TheTable \<Rightarrow> (Inl TypeError, populate_table org assigned)
      | Inr (TheContext ctx) \<Rightarrow> (Inl TypeError, assigned)
      | Inr NoObject \<Rightarrow> (Inl TypeError, assigned))"

text \<open>
  \<^verbatim>\<open>execute\<close> of the organization synchronizes first; a failure there ends the call.  It
  returns its result, the organization and the table as it left them.
\<close>

definition org_execute ::
  "External \<Rightarrow> Network \<Rightarrow> AssignedProperties \<Rightarrow> DistributedOrganization \<Rightarrow> PublicAccount
     \<Rightarrow> AssetIdentifier \<Rightarrow> string \<Rightarrow> TransactionParameters \<Rightarrow> ContractOption list
     \<Rightarrow> (failure + TransactionURI) \<times> DistributedOrganization \<times> AssignedProperties" where
  "org_execute ext net assigned org actor' governAssetId contract parameters' argv' =
     (case synchronize net org of
        (Inl e, org') \<Rightarrow> (Inl e, org', assigned)
      | (Inr _, org') \<Rightarrow>
          (fst (org_executeOffline ext assigned org' actor' governAssetId contract
                  parameters' argv'),
           org',
           snd (org_executeOffline ext assigned org' actor' governAssetId contract
                  parameters' argv')))"

declare validate_loop.simps [simp del]
declare validateBundle_loop.simps [simp del]

section \<open>Sample values\<close>

text \<open>Inputs for the concrete evaluations below: a transaction and an aggregate given by
  what the taxonomy reads of them.\<close>

definition transaction_of_type :: "nat \<Rightarrow> Transaction" where
  "transaction_of_type ty =
     \<lparr>tx_type = ty, tx_signer = None, tx_recipient = None, tx_proof = None,
      tx_message = None\<rparr>"

definition aggregate_of :: "Transaction list \<Rightarrow> AggregateTransaction" where
  "aggregate_of txs =
     \<lparr>agg_type = AGGREGATE_BONDED, innerTransactions = txs, transactionInfo = None\<rparr>"

definition repeatable_rule :: "nat list \<Rightarrow> SemanticRuleset" where
  "repeatable_rule bw =
     \<lparr>bundleWith = bw, repeatable = True, minOccurences = 1, maxOccurences = 0\<rparr>"

definition transfer_only :: Taxonomy where
  "transfer_only =
     new_Taxonomy ''G'' (Map_new [(0, \<lparr>type = TRANSFER, required = True\<rparr>)])
       (Map_new [])"

definition optional_then_repeatable :: Taxonomy where
  "optional_then_repeatable =
     new_Taxonomy ''G''
       (Map_new [(0, \<lparr>type = TRANSFER, required = False\<rparr>),
                 (1, \<lparr>type = MOSAIC_ADDRESS_RESTRICTION, required = True\<rparr>)])
       (Map_new [(1, repeatable_rule [1])])"

definition optional_repeatable :: Taxonomy where
  "optional_repeatable =
     new_Taxonomy ''G'' (Map_new [(0, \<lparr>type = TRANSFER, required = False\<rparr>)])
       (Map_new [(0, repeatable_rule [0])])"

definition repeatable_then_required :: Taxonomy where
  "repeatable_then_required =
     new_Taxonomy ''G''
       (Map_new [(0, \<lparr>type = MOSAIC_ADDRESS_RESTRICTION, required = True\<rparr>),
                 (1, \<lparr>type = TRANSFER, required = True\<rparr>)])
       (Map_new [(0, repeatable_rule [1])])"

lemmas taxonomy_defs =
  validate_def new_Taxonomy_def Map_new_def getTransactionTypes_def Map_values_def
  acceptsType_def Map_keys_def Map_get_def is_repeatable_def bundle_of_def validateBundle_def
  js_slice_def cursor_of_def mismatch_def js_index_def transaction_of_type_def
  aggregate_of_def repeatable_rule_def

lemmas sample_simps =
  taxonomy_defs validate_loop.simps validateBundle_loop.simps
  TRANSFER_def MOSAIC_ADDRESS_RESTRICTION_def SECRET_PROOF_def

text \<open>The accounts of the repository's tests, and an organization with no agreement.\<close>

definition sample_target :: PublicAccount where
  "sample_target =
     \<lparr>publicKey = ''TARGET'',
      address = Some \<lparr>plain = ''TD4YEJJUQ7HBDWF5LRLUUBE6CI7OS7OEN3USJ3I'', networkType = 152\<rparr>\<rparr>"

definition sample_agreement :: PublicAccount where
  "sample_agreement =
     \<lparr>publicKey = ''AGREEMENT'',
      address = Some \<lparr>plain = ''TBJTHKVZEC563PFLZPNYG2LYY6LU4X2MLN2HJKA'', networkType = 152\<rparr>\<rparr>"

definition sample_operator :: PublicAccount where
  "sample_operator =
     \<lparr>publicKey = ''OPERATOR1'',
      address = Some \<lparr>plain = ''TOPERATOR1'', networkType = 152\<rparr>\<rparr>"

definition sample_organization :: DistributedOrganization where
  "sample_organization =
     \<lparr>org_name = ''SWP:XYM'',
      org_reader = \<lparr>gatewayUrl = ''http://api-01.us-west-1.symboldev.network:3000'',
                    reader_networkType = 152\<rparr>,
      agreementHash = None, identifier_id = ''9e03faed'', org_agreement = None,
      org_target = sample_target, org_mosaicInfo = None, org_operators = [],
      org_metadata = None\<rparr>"

definition commit_options :: "ContractOption list" where
  "commit_options =
     [\<lparr>opt_name = ''target'', opt_value = Account sample_target\<rparr>,
      \<lparr>opt_name = ''agreement'', opt_value = Account sample_agreement\<rparr>]"

definition dao_options :: "ContractOption list" where
  "dao_options =
     [\<lparr>opt_name = ''target'', opt_value = Account sample_target\<rparr>,
      \<lparr>opt_name = ''operators'', opt_value = AccountList [sample_operator]\<rparr>,
      \<lparr>opt_name = ''metadata'',
       opt_value = Bucket \<lparr>bucket_name = ''dummy'', bucket_code = ''101'',
                             bucket_website = [], bucket_contact = [],
                             bucket_description = [], bucket_image = []\<rparr>\<rparr>]"

definition agreement_options :: "ContractOption list" where
  "agreement_options =
     [\<lparr>opt_name = ''password'', opt_value = Text []\<rparr>,
      \<lparr>opt_name = ''mnemonic'', opt_value = Text ''words''\<rparr>,
      \<lparr>opt_name = ''path'', opt_value = Text ''m/44/4343/5/0/0''\<rparr>,
      \<lparr>opt_name = ''operators'', opt_value = AccountList [sample_operator]\<rparr>]"

text \<open>A stand-in for the parts that are parameters: \<^verbatim>\<open>Vote\<close> with the inherited
  \<^verbatim>\<open>canExecute\<close> and no arguments, builders that build nothing, and a serialization that
  raises unless every inner transaction has a recipient and a public account with an
  address as its signer.\<close>

definition sample_serialize :: "AggregateTransaction \<Rightarrow> failure + string" where
  "sample_serialize contract =
     (if list_all (\<lambda>tx. tx_recipient tx \<noteq> None
                        \<and> address_of_value (case tx_signer tx of None \<Rightarrow> Undefined
                                                | Some v \<Rightarrow> v) \<noteq> None)
                  (innerTransactions contract)
      then Inr ''PAYLOAD'' else Inl TypeError)"

definition sample_External :: External where
  "sample_External =
     \<lparr>Vote_name = ''Vote'',
      Vote_canExecute = Executable_canExecute [],
      Vote_transactions = (\<lambda>c. Inr []),
      CreateAgreement_transactions = (\<lambda>c. Inr []),
      CreateDAO_transactions = (\<lambda>c. Inr []),
      serialize = sample_serialize\<rparr>"

text \<open>The confirmed aggregate of a \<^verbatim>\<open>CommitAgreement\<close> execution for the sample
  organization.\<close>

definition sample_confirmed_agreement :: AggregateTransaction where
  "sample_confirmed_agreement =
     \<lparr>agg_type = AGGREGATE_BONDED,
      innerTransactions =
        [\<lparr>tx_type = SECRET_PROOF, tx_signer = Some (Account sample_agreement),
          tx_recipient = address sample_target,
          tx_proof = Some ''9e03faed'', tx_message = None\<rparr>,
         \<lparr>tx_type = TRANSFER, tx_signer = Some (Account sample_agreement),
          tx_recipient = address sample_agreement,
          tx_proof = None, tx_message = Some ''TARGET''\<rparr>,
         \<lparr>tx_type = TRANSFER, tx_signer = Some (Account sample_agreement),
          tx_recipient = address sample_agreement,
          tx_proof = None, tx_message = Some ''Governable(v1):commit-agreement:9e03faed''\<rparr>],
      transactionInfo = Some ''confirmed''\<rparr>"

text \<open>A second synchronization: the agreement is read and is authentic, the mosaic read
  errors, the graph read and the metadata read fail; the organization held values for all
  three fields.\<close>

definition failing_reads :: Network where
  "failing_reads =
     \<lparr>readTransactionFromNetwork = (\<lambda>hash. Inr (Some sample_confirmed_agreement)),
      getMosaic = (\<lambda>ident. Inr (Errors NetworkError)),
      getMultisigAccountGraphInfo = (\<lambda>a. Inr (Errors NetworkError)),
      readMetadataFromNetwork = (\<lambda>a. Inl NetworkError)\<rparr>"

definition synchronized_organization :: DistributedOrganization where
  "synchronized_organization =
     sample_organization
       \<lparr>agreementHash := Some ''A1B2'',
        org_agreement := Some sample_confirmed_agreement,
        org_mosaicInfo := Some \<lparr>mosaic_id = ''9e03faed''\<rparr>,
        org_operators := [\<lparr>plain = ''TOPERATOR1'', networkType = 152\<rparr>],
        org_metadata := Some \<lparr>bucket_name = ''dummy'', bucket_code = ''101'',
                                bucket_website = [], bucket_contact = [],
                                bucket_description = [], bucket_image = []\<rparr>\<rparr>"

text \<open>A network on which no agreement is found under the hash.\<close>

definition no_agreement_found :: Network where
  "no_agreement_found =
     \<lparr>readTransactionFromNetwork = (\<lambda>hash. Inr None),
      getMosaic = (\<lambda>ident. Inr (Emits None)),
      getMultisigAccountGraphInfo = (\<lambda>a. Inl NetworkError),
      readMetadataFromNetwork = (\<lambda>a. Inl NetworkError)\<rparr>"

text \<open>Three contracts of the sample organization, as \<^verbatim>\<open>getContract\<close> constructs them.\<close>

definition dao_contract :: Executable where
  "dao_contract =
     new_Executable CreateDAO
       (getContext sample_organization sample_operator new_TransactionParameters
          (Some dao_options))
       (org_identifier sample_organization)"

definition vote_contract :: Executable where
  "vote_contract =
     new_Executable CreateVote
       (getContext sample_organization sample_operator new_TransactionParameters
          (Some [\<lparr>opt_name = ''operator'', opt_value = Account sample_operator\<rparr>]))
       (org_identifier sample_organization)"

definition commit_contract :: Executable where
  "commit_contract =
     new_Executable CommitAgreement
       (getContext sample_organization sample_operator new_TransactionParameters
          (Some commit_options))
       (org_identifier sample_organization)"

text \<open>A \<^verbatim>\<open>CommitAgreement\<close> whose \<^verbatim>\<open>agreement\<close> input is an account without an address.\<close>

definition addressless_contract :: Executable where
  "addressless_contract =
     new_Executable CommitAgreement
       (getContext sample_organization sample_operator new_TransactionParameters
          (Some [\<lparr>opt_name = ''target'', opt_value = Account sample_target\<rparr>,
                 \<lparr>opt_name = ''agreement'',
                  opt_value = Account \<lparr>publicKey = ''AGREEMENT'', address = None\<rparr>\<rparr>]))
       (org_identifier sample_organization)"

lemmas contract_defs =
  org_canExecute_def org_executeOffline_def org_execute_def getContract_def getContext_def
  DigitalContracts_def Object_prototype_properties_def populate_def new_Executable_def
  populate_table_def truthy_def Map_get_def Let_def
  canExecute_def transactions_def execute_def assertExecutionAllowance_def prepare_def
  createBonded_def contract_name_def
  CreateAgreement_canExecute_def CommitAgreement_canExecute_def CreateDAO_canExecute_def
  CreateVote_canExecute_def Executable_canExecute_def
  CreateAgreement_arguments_def CommitAgreement_arguments_def CreateDAO_arguments_def
  CreateVote_arguments_def CommitAgreement_transactions_def CreateVote_transactions_def
  CommitAgreement_descriptor_def
  getInput_def address_equals_def address_of_value_def empty_PublicAccount_def
  new_AllowanceResult_def new_TransactionParameters_def Revision_def org_identifier_def

lemmas sample_contract_defs =
  sample_target_def sample_agreement_def sample_operator_def sample_organization_def
  commit_options_def dao_options_def agreement_options_def sample_External_def
  sample_serialize_def
  sample_confirmed_agreement_def failing_reads_def synchronized_organization_def
  no_agreement_found_def

lemmas synchronize_defs =
  synchronize_def sync_mosaicInfo_def sync_operators_def sync_metadata_def read_operators_def
  verifyAuthenticity_def getMultisigAccountInfoFromGraph_def js_reduce_def

section \<open>Properties of the taxonomy\<close>

subsection \<open>Empty contracts and empty sequences\<close>

text \<open>
  Claim C5.  For every taxonomy built by the constructor and every aggregate, \<open>validate\<close>
  returns \<open>false\<close> when the aggregate has no inner transactions or when the taxonomy's
  sequence has no entries: it neither raises nor accepts.
\<close>

theorem validate_rejects_empty:
  assumes "innerTransactions contract = [] \<or> seq = []"
  shows "validate (new_Taxonomy n seq sem) contract = Inr False"
  using assms
  by (auto simp: validate_def new_Taxonomy_def getTransactionTypes_def Map_values_def)

theorem validate_rejects_empty_witness:
  "(innerTransactions (aggregate_of []) = []
      \<or> Map_new [(0, \<lparr>type = TRANSFER, required = True\<rparr>)] = [])
   \<and> validate (new_Taxonomy ''G'' (Map_new [(0, \<lparr>type = TRANSFER, required = True\<rparr>)])
                  (Map_new []))
        (aggregate_of []) = Inr False
   \<and> (innerTransactions (aggregate_of [transaction_of_type TRANSFER]) = []
      \<or> (Map_new [] :: TaxonomyMap) = [])
   \<and> validate (new_Taxonomy ''G'' (Map_new []) (Map_new []))
        (aggregate_of [transaction_of_type TRANSFER]) = Inr False"
  using validate_rejects_empty
          [of "aggregate_of []" "Map_new [(0, \<lparr>type = TRANSFER, required = True\<rparr>)]"
              "''G''" "Map_new []"]
        validate_rejects_empty
          [of "aggregate_of [transaction_of_type TRANSFER]" "Map_new []" "''G''" "Map_new []"]
  by (simp add: aggregate_of_def Map_new_def)

subsection \<open>The frame of setAcceptsRepeat\<close>

lemma validate_loop_frame:
  assumes "sequence t' = sequence t" and "semantics t' = semantics t"
  shows "validate_loop t' ctrTxes i skip bundled = validate_loop t ctrTxes i skip bundled"
  using assms
proof (induction t ctrTxes i skip bundled rule: validate_loop.induct)
  case (1 t ctrTxes i skip bundled)
  show ?case
    using 1
    by (simp add: validate_loop.simps [of t ctrTxes i] validate_loop.simps [of t' ctrTxes i]
             split: option.splits sum.splits)
qed

lemma setAcceptsRepeat_cases:
  "setAcceptsRepeat t ty = t
   \<or> setAcceptsRepeat t ty = t\<lparr>repeatableTypes := repeatableTypes t @ [ty]\<rparr>"
  by (simp add: setAcceptsRepeat_def)

lemma validate_setAcceptsRepeat:
  "validate (setAcceptsRepeat t ty) contract = validate t contract"
  using setAcceptsRepeat_cases [of t ty]
  by (auto simp: validate_def acceptsType_def
        validate_loop_frame [of "t\<lparr>repeatableTypes := repeatableTypes t @ [ty]\<rparr>" t])

lemma acceptsType_setAcceptsRepeat:
  "acceptsType (setAcceptsRepeat t ty) ty' = acceptsType t ty'"
  using setAcceptsRepeat_cases [of t ty] by (auto simp: acceptsType_def)

lemma foldl_setAcceptsRepeat_fields:
  "sequence (foldl setAcceptsRepeat t tys) = sequence t
   \<and> semantics (foldl setAcceptsRepeat t tys) = semantics t
   \<and> registeredTypes (foldl setAcceptsRepeat t tys) = registeredTypes t
   \<and> name (foldl setAcceptsRepeat t tys) = name t"
  by (induction tys arbitrary: t) (simp_all add: setAcceptsRepeat_def)

text \<open>
  Claim C10.  \<open>setAcceptsRepeat\<close> never changes the outcome of \<open>validate\<close>: after any
  sequence of calls, \<open>validate\<close> and \<open>acceptsType\<close> return what they returned before
  (\<open>validateBundle\<close> takes no taxonomy at all); the name, the sequence, the semantics and
  the registered types are unchanged; and a call with a type that is not registered changes
  nothing.
\<close>

theorem setAcceptsRepeat_preserves_validate:
  "validate (foldl setAcceptsRepeat t tys) contract = validate t contract
   \<and> acceptsType (foldl setAcceptsRepeat t tys) ty' = acceptsType t ty'
   \<and> name (foldl setAcceptsRepeat t tys) = name t
   \<and> sequence (foldl setAcceptsRepeat t tys) = sequence t
   \<and> semantics (foldl setAcceptsRepeat t tys) = semantics t
   \<and> registeredTypes (foldl setAcceptsRepeat t tys) = registeredTypes t
   \<and> (ty \<notin> set (registeredTypes t) \<longrightarrow> setAcceptsRepeat t ty = t)"
proof -
  have "validate (foldl setAcceptsRepeat t tys) contract = validate t contract"
    by (induction tys arbitrary: t) (simp_all add: validate_setAcceptsRepeat)
  moreover have "acceptsType (foldl setAcceptsRepeat t tys) ty' = acceptsType t ty'"
    by (induction tys arbitrary: t) (simp_all add: acceptsType_setAcceptsRepeat)
  moreover have "ty \<notin> set (registeredTypes t) \<longrightarrow> setAcceptsRepeat t ty = t"
    by (simp add: setAcceptsRepeat_def)
  ultimately show ?thesis
    using foldl_setAcceptsRepeat_fields [of t tys] by simp
qed

theorem setAcceptsRepeat_preserves_validate_witness:
  "SECRET_PROOF \<notin> set (registeredTypes transfer_only)
   \<and> setAcceptsRepeat transfer_only SECRET_PROOF = transfer_only
   \<and> repeatableTypes (setAcceptsRepeat transfer_only TRANSFER) = [TRANSFER]
   \<and> validate (foldl setAcceptsRepeat transfer_only [TRANSFER, SECRET_PROOF])
        (aggregate_of [transaction_of_type TRANSFER])
      = validate transfer_only (aggregate_of [transaction_of_type TRANSFER])"
proof -
  have h: "SECRET_PROOF \<notin> set (registeredTypes transfer_only)"
    by (simp add: transfer_only_def taxonomy_defs TRANSFER_def SECRET_PROOF_def)
  have r: "repeatableTypes (setAcceptsRepeat transfer_only TRANSFER) = [TRANSFER]"
    by (simp add: setAcceptsRepeat_def transfer_only_def taxonomy_defs TRANSFER_def)
  show ?thesis
    using h r
      setAcceptsRepeat_preserves_validate
        [of transfer_only "[TRANSFER, SECRET_PROOF]"
            "aggregate_of [transaction_of_type TRANSFER]" TRANSFER SECRET_PROOF]
    by simp
qed

subsection \<open>A single optional entry\<close>

text \<open>
  Claim C4, as the code has it.  With one entry, at position \<open>0\<close>, of a type \<open>T\<close> other
  than \<open>0\<close> and with \<open>required = false\<close>, \<open>validate\<close> returns \<open>true\<close> for the aggregate
  holding exactly one transaction of type \<open>T\<close>, and \<open>false\<close> for the aggregate with no
  inner transactions: empty contracts are refused before the walk.
\<close>

theorem validate_single_optional:
  assumes "T \<noteq> 0" and "tx_type tx = T"
  shows "validate (new_Taxonomy n (Map_new [(0, \<lparr>type = T, required = False\<rparr>)]) sem)
           (contract\<lparr>innerTransactions := []\<rparr>) = Inr False
       \<and> validate (new_Taxonomy n (Map_new [(0, \<lparr>type = T, required = False\<rparr>)]) sem)
           (contract\<lparr>innerTransactions := [tx]\<rparr>) = Inr True"
proof -
  let ?t = "new_Taxonomy n (Map_new [(0, \<lparr>type = T, required = False\<rparr>)]) sem"
  have seq: "sequence ?t = [(0, \<lparr>type = T, required = False\<rparr>)]"
    by (simp add: new_Taxonomy_def Map_new_def)
  have reg: "registeredTypes ?t = [T]"
    by (simp add: new_Taxonomy_def Map_new_def getTransactionTypes_def Map_values_def)
  have l1: "validate_loop ?t [tx] (Suc 0) 0 0 = Inr True"
    by (simp add: validate_loop.simps [of ?t "[tx]" "Suc 0"] seq Map_keys_def)
  have l0: "validate_loop ?t [tx] 0 0 0 = Inr True"
    using assms l1
    by (simp add: validate_loop.simps [of ?t "[tx]" 0] seq Map_keys_def Map_get_def
          mismatch_def js_index_def cursor_of_def)
  show ?thesis
    using assms l0 by (simp add: validate_def reg acceptsType_def)
qed

theorem validate_single_optional_witness:
  "TRANSFER \<noteq> 0 \<and> tx_type (transaction_of_type TRANSFER) = TRANSFER
   \<and> validate (new_Taxonomy ''G'' (Map_new [(0, \<lparr>type = TRANSFER, required = False\<rparr>)])
                  (Map_new []))
        ((aggregate_of [])\<lparr>innerTransactions := []\<rparr>) = Inr False
   \<and> validate (new_Taxonomy ''G'' (Map_new [(0, \<lparr>type = TRANSFER, required = False\<rparr>)])
                  (Map_new []))
        ((aggregate_of [])\<lparr>innerTransactions := [transaction_of_type TRANSFER]\<rparr>) = Inr True"
proof -
  have h1: "TRANSFER \<noteq> 0" by (simp add: TRANSFER_def)
  have h2: "tx_type (transaction_of_type TRANSFER) = TRANSFER"
    by (simp add: transaction_of_type_def)
  show ?thesis
    using h1 h2 validate_single_optional [OF h1 h2, of "''G''" "Map_new []" "aggregate_of []"]
    by simp
qed

text \<open>
  Claim C4 as stated fails: the candidate that omits the optional entry, the aggregate with
  no inner transactions, is not validated.
\<close>

theorem validate_single_optional_counterexample:
  "validate (new_Taxonomy ''G'' (Map_new [(0, \<lparr>type = TRANSFER, required = False\<rparr>)])
               (Map_new []))
     (aggregate_of []) = Inr False"
  by (simp add: validate_def aggregate_of_def)

subsection \<open>Repeatable entries\<close>

text \<open>
  \<open>validateBundle\<close> counts up from \<open>cntFound\<close>; it returns \<open>0\<close> exactly when the first pass
  over the bundle breaks.  On a bundle whose entries are all defined, a pass succeeds
  exactly when the types of the bundle are the types of the next transactions, in order.
\<close>

lemma validateBundle_loop_ge:
  "validateBundle_loop entries txs cntFound = Inr n \<Longrightarrow> cntFound \<le> n"
proof (induction entries txs cntFound rule: validateBundle_loop.induct)
  case (1 entries txs cntFound)
  have unf: "(if entries = [] then Inr cntFound
      else case bundle_pass entries (drop (cntFound * length entries) txs) of
             Inl e \<Rightarrow> Inl e
           | Inr isBundle \<Rightarrow>
               if isBundle then validateBundle_loop entries txs (cntFound + 1)
               else Inr cntFound) = Inr n"
    using 1(2) unfolding validateBundle_loop.simps [of entries txs cntFound] .
  show ?case
  proof (cases "entries = []")
    case True
    with unf show ?thesis by simp
  next
    case False
    show ?thesis
    proof (cases "bundle_pass entries (drop (cntFound * length entries) txs)")
      case (Inl e)
      with False unf show ?thesis by simp
    next
      case (Inr isBundle)
      show ?thesis
      proof (cases isBundle)
        case True
        with False Inr unf
        have "validateBundle_loop entries txs (cntFound + 1) = Inr n"
          by simp
        with 1(1) [OF False Inr True] show ?thesis by simp
      next
        case F: False
        with False Inr unf show ?thesis by simp
      qed
    qed
  qed
qed

lemma validateBundle_zero_iff:
  "validateBundle entries txs = Inr 0
     \<longleftrightarrow> entries = [] \<or> bundle_pass entries txs = Inr False"
  using validateBundle_loop_ge [of entries txs 1 0]
  by (auto simp: validateBundle_def validateBundle_loop.simps [of entries txs 0]
           split: sum.splits)

lemma bundle_pass_defined:
  "list_all (\<lambda>e. e \<noteq> None) entries \<Longrightarrow>
   bundle_pass entries txs =
     Inr (length entries \<le> length txs
          \<and> map tx_type (take (length entries) txs) = map (\<lambda>e. type (the e)) entries)"
  by (induction entries txs rule: bundle_pass.induct) (auto split: option.splits)

lemma length_bundle_of:
  "length (bundle_of seq i entry rules) = max 1 (length (bundleWith rules))"
  by (simp add: bundle_of_def)

text \<open>
  The step of the walk at a required repeatable entry whose bundle was found
  \<open>numOccurences > 0\<close> times: the bundle has \<open>max 1 (length bundleWith)\<close> entries, and the
  walk goes on one position after the bundle's length.
\<close>

lemma validate_loop_repeatable_step:
  assumes "i < length (Map_keys (sequence t))"
    and "Map_get (sequence t) i = Some entry" and "required entry"
    and "Map_get (semantics t) i = Some rules" and "repeatable rules"
    and "validateBundle (bundle_of (sequence t) i entry rules)
           (js_slice ctrTxes (cursor_of i skip bundled)) = Inr numOccurences"
    and "0 < numOccurences"
  shows "validate_loop t ctrTxes i skip bundled =
         validate_loop t ctrTxes (i + max 1 (length (bundleWith rules)) + 1) skip
           (bundled + numOccurences * max 1 (length (bundleWith rules)))"
  using assms
  by (simp add: validate_loop.simps [of t ctrTxes i] is_repeatable_def length_bundle_of)

text \<open>
  An iteration that has a next one does not decide the result, so the result of the walk
  is the result of the loop from any variables the walk reaches.
\<close>

lemma validate_loop_step:
  assumes "validate_step t ctrTxes (i, skip, bundled) = Some (i', skip', bundled')"
  shows "validate_loop t ctrTxes i skip bundled = validate_loop t ctrTxes i' skip' bundled'"
  using assms
  by (auto simp: validate_step_def validate_loop.simps [of t ctrTxes i]
           split: if_splits option.splits sum.splits)

lemma validate_loop_reaches:
  assumes "walk_reaches t ctrTxes s"
  shows "validate_loop t ctrTxes 0 0 0
           = validate_loop t ctrTxes (fst s) (fst (snd s)) (snd (snd s))"
  using assms
proof (induction rule: walk_reaches.induct)
  case start
  show ?case by simp
next
  case (step s s')
  obtain i skip bundled where s: "s = (i, skip, bundled)" by (cases s)
  obtain i' skip' bundled' where s': "s' = (i', skip', bundled')" by (cases s')
  from step.hyps(2) have "validate_loop t ctrTxes i skip bundled
      = validate_loop t ctrTxes i' skip' bundled'"
    unfolding s s' by (rule validate_loop_step)
  with step.IH show ?case by (simp add: s s')
qed

lemma validate_loop_zero_repetitions:
  assumes "i < length (Map_keys (sequence t))"
    and "Map_get (sequence t) i = Some entry" and "required entry"
    and "Map_get (semantics t) i = Some rules" and "repeatable rules"
    and "validateBundle (bundle_of (sequence t) i entry rules)
           (js_slice ctrTxes (cursor_of i skip bundled)) = Inr 0"
  shows "validate_loop t ctrTxes i skip bundled = Inr False"
  using assms
  by (simp add: validate_loop.simps [of t ctrTxes i] is_repeatable_def)

text \<open>
  Claim C2, as the code has it.  When the walk reaches a position that holds a repeatable
  entry: if the entry is required and \<open>validateBundle\<close> finds zero full repetitions of its
  bundle at the cursor, \<open>validate\<close> returns \<open>false\<close>; if the entry has \<open>required = false\<close>
  the optional branch runs instead, no bundle is matched, and the walk goes on to the next
  position (counting a skip when the transaction at the cursor does not match).
\<close>

theorem validate_zero_repetitions:
  assumes "walk_reaches t (innerTransactions contract) (i, skip, bundled)"
    and "i < length (Map_keys (sequence t))"
    and "Map_get (sequence t) i = Some entry"
    and "Map_get (semantics t) i = Some rules" and "repeatable rules"
  shows "(required entry \<longrightarrow>
            validateBundle (bundle_of (sequence t) i entry rules)
              (js_slice (innerTransactions contract) (cursor_of i skip bundled)) = Inr 0 \<longrightarrow>
            validate t contract = Inr False)
       \<and> (\<not> required entry \<longrightarrow>
            walk_reaches t (innerTransactions contract)
              (i + 1,
               if mismatch (js_index (innerTransactions contract) (cursor_of i skip bundled))
                    entry
               then skip + 1 else skip,
               bundled))"
proof (intro conjI impI)
  assume req: "required entry"
    and zero: "validateBundle (bundle_of (sequence t) i entry rules)
              (js_slice (innerTransactions contract) (cursor_of i skip bundled)) = Inr 0"
  have "validate_loop t (innerTransactions contract) 0 0 0
          = validate_loop t (innerTransactions contract) i skip bundled"
    using validate_loop_reaches [OF assms(1)] by simp
  also have "\<dots> = Inr False"
    using assms(2,3) req assms(4,5) zero by (rule validate_loop_zero_repetitions)
  finally show "validate t contract = Inr False"
    by (simp add: validate_def)
next
  assume opt: "\<not> required entry"
  have "validate_step t (innerTransactions contract) (i, skip, bundled)
          = Some (i + 1,
               if mismatch (js_index (innerTransactions contract) (cursor_of i skip bundled))
                    entry
               then skip + 1 else skip,
               bundled)"
    using assms(2,3) opt by (simp add: validate_step_def)
  with assms(1) show "walk_reaches t (innerTransactions contract)
              (i + 1,
               if mismatch (js_index (innerTransactions contract) (cursor_of i skip bundled))
                    entry
               then skip + 1 else skip,
               bundled)"
    by (rule walk_reaches.step)
qed

lemma sample_walk_reaches:
  "walk_reaches optional_then_repeatable [transaction_of_type TRANSFER] (1, 0, 0)"
proof -
  have "validate_step optional_then_repeatable [transaction_of_type TRANSFER] (0, 0, 0)
          = Some (1, 0, 0)"
    by (simp add: validate_step_def optional_then_repeatable_def sample_simps)
  with walk_reaches.start show ?thesis by (rule walk_reaches.step)
qed

theorem validate_zero_repetitions_witness:
  "walk_reaches optional_then_repeatable
     (innerTransactions (aggregate_of [transaction_of_type TRANSFER])) (1, 0, 0)
   \<and> 1 < length (Map_keys (sequence optional_then_repeatable))
   \<and> Map_get (sequence optional_then_repeatable) 1
       = Some \<lparr>type = MOSAIC_ADDRESS_RESTRICTION, required = True\<rparr>
   \<and> Map_get (semantics optional_then_repeatable) 1 = Some (repeatable_rule [1])
   \<and> repeatable (repeatable_rule [1])
   \<and> required \<lparr>type = MOSAIC_ADDRESS_RESTRICTION, required = True\<rparr>
   \<and> validateBundle
        (bundle_of (sequence optional_then_repeatable) 1
           \<lparr>type = MOSAIC_ADDRESS_RESTRICTION, required = True\<rparr> (repeatable_rule [1]))
        (js_slice (innerTransactions (aggregate_of [transaction_of_type TRANSFER]))
           (cursor_of 1 0 0)) = Inr 0
   \<and> validate optional_then_repeatable (aggregate_of [transaction_of_type TRANSFER])
       = Inr False
   \<and> walk_reaches optional_repeatable
        (innerTransactions (aggregate_of [transaction_of_type TRANSFER])) (0, 0, 0)
   \<and> 0 < length (Map_keys (sequence optional_repeatable))
   \<and> Map_get (sequence optional_repeatable) 0 = Some \<lparr>type = TRANSFER, required = False\<rparr>
   \<and> Map_get (semantics optional_repeatable) 0 = Some (repeatable_rule [0])
   \<and> \<not> required \<lparr>type = TRANSFER, required = False\<rparr>
   \<and> walk_reaches optional_repeatable
        (innerTransactions (aggregate_of [transaction_of_type TRANSFER])) (1, 0, 0)"
proof -
  have inner: "innerTransactions (aggregate_of txs) = txs" for txs
    by (simp add: aggregate_of_def)
  have a0: "walk_reaches optional_then_repeatable
     (innerTransactions (aggregate_of [transaction_of_type TRANSFER])) (1, 0, 0)"
    using sample_walk_reaches by (simp add: inner)
  have a1: "1 < length (Map_keys (sequence optional_then_repeatable))"
    by (simp add: optional_then_repeatable_def sample_simps)
  have a2: "Map_get (sequence optional_then_repeatable) 1
       = Some \<lparr>type = MOSAIC_ADDRESS_RESTRICTION, required = True\<rparr>"
    by (simp add: optional_then_repeatable_def sample_simps)
  have a3: "Map_get (semantics optional_then_repeatable) 1 = Some (repeatable_rule [1])"
    by (simp add: optional_then_repeatable_def sample_simps)
  have a4: "repeatable (repeatable_rule [n])" for n
    by (simp add: repeatable_rule_def)
  have a5: "validateBundle
        (bundle_of (sequence optional_then_repeatable) 1
           \<lparr>type = MOSAIC_ADDRESS_RESTRICTION, required = True\<rparr> (repeatable_rule [1]))
        (js_slice (innerTransactions (aggregate_of [transaction_of_type TRANSFER]))
           (cursor_of 1 0 0)) = Inr 0"
    by (simp add: optional_then_repeatable_def sample_simps)
  have b0: "walk_reaches optional_repeatable
        (innerTransactions (aggregate_of [transaction_of_type TRANSFER])) (0, 0, 0)"
    by (rule walk_reaches.start)
  have b1: "0 < length (Map_keys (sequence optional_repeatable))"
    by (simp add: optional_repeatable_def sample_simps)
  have b2: "Map_get (sequence optional_repeatable) 0
       = Some \<lparr>type = TRANSFER, required = False\<rparr>"
    by (simp add: optional_repeatable_def sample_simps)
  have b3: "Map_get (semantics optional_repeatable) 0 = Some (repeatable_rule [0])"
    by (simp add: optional_repeatable_def sample_simps)
  have b4: "\<not> mismatch (js_index (innerTransactions
                                     (aggregate_of [transaction_of_type TRANSFER]))
                          (cursor_of 0 0 0)) \<lparr>type = TRANSFER, required = False\<rparr>"
    by (simp add: sample_simps)
  show ?thesis
    using a0 a1 a2 a3 a4 a5 b0 b1 b2 b3 b4
      validate_zero_repetitions [OF a0 a1 a2 a3 a4]
      validate_zero_repetitions [OF b0 b1 b2 b3 a4]
    by simp
qed

text \<open>
  Claim C2 as stated fails.  The sequence is an optional transfer, then a required
  repeatable address restriction; the candidate is one transfer.  The walk reaches position
  \<open>1\<close> with the cursor past the candidate, finds zero repetitions there, and \<open>validate\<close>
  returns \<open>false\<close>.
\<close>

theorem validate_zero_repetitions_counterexample:
  "walk_reaches optional_then_repeatable [transaction_of_type TRANSFER] (1, 0, 0)
   \<and> Map_get (sequence optional_then_repeatable) 1
       = Some \<lparr>type = MOSAIC_ADDRESS_RESTRICTION, required = True\<rparr>
   \<and> Map_get (semantics optional_then_repeatable) 1 = Some (repeatable_rule [1])
   \<and> validateBundle
        (bundle_of (sequence optional_then_repeatable) 1
           \<lparr>type = MOSAIC_ADDRESS_RESTRICTION, required = True\<rparr> (repeatable_rule [1]))
        (js_slice [transaction_of_type TRANSFER] (cursor_of 1 0 0)) = Inr 0
   \<and> validate optional_then_repeatable (aggregate_of [transaction_of_type TRANSFER])
       = Inr False"
  using sample_walk_reaches
  by (simp add: optional_then_repeatable_def sample_simps)

text \<open>
  The same step on the walk: from a required repeatable entry at position \<open>i\<close> whose bundle
  of \<open>L\<close> entries was found, the next iteration is at position \<open>i + L + 1\<close>.
\<close>

lemma walk_reaches_after_bundle:
  assumes "walk_reaches t ctrTxes (i, skip, bundled)"
    and "i < length (Map_keys (sequence t))"
    and "Map_get (sequence t) i = Some entry" and "required entry"
    and "Map_get (semantics t) i = Some rules" and "repeatable rules"
    and "validateBundle (bundle_of (sequence t) i entry rules)
           (js_slice ctrTxes (cursor_of i skip bundled)) = Inr numOccurences"
    and "0 < numOccurences"
  shows "walk_reaches t ctrTxes
           (i + max 1 (length (bundleWith rules)) + 1, skip,
            bundled + numOccurences * max 1 (length (bundleWith rules)))"
proof -
  have "validate_step t ctrTxes (i, skip, bundled)
          = Some (i + max 1 (length (bundleWith rules)) + 1, skip,
                  bundled + numOccurences * max 1 (length (bundleWith rules)))"
    using assms(2-8) by (simp add: validate_step_def is_repeatable_def length_bundle_of)
  with assms(1) show ?thesis by (rule walk_reaches.step)
qed

text \<open>
  On the sample below the walk runs two iterations, at the positions \<open>0\<close> and \<open>2\<close>; the
  second finds the loop condition false.  No iteration is at position \<open>1\<close>.
\<close>

lemma sample_walk_skips_position_1:
  assumes "walk_reaches repeatable_then_required
             [transaction_of_type MOSAIC_ADDRESS_RESTRICTION] s"
  shows "s = (0, 0, 0) \<or> s = (2, 0, 1)"
  using assms
proof (induction rule: walk_reaches.induct)
  case start
  show ?case by simp
next
  case (step s s')
  from step.IH show ?case
  proof
    assume "s = (0, 0, 0)"
    with step.hyps(2) show ?thesis
      by (auto simp: validate_step_def repeatable_then_required_def sample_simps)
  next
    assume "s = (2, 0, 1)"
    with step.hyps(2) show ?thesis
      by (simp add: validate_step_def repeatable_then_required_def sample_simps)
  qed
qed

text \<open>
  Claim C3 at a concrete input.  The sequence is a required repeatable address restriction
  (bundle of length \<open>1\<close>) at position \<open>0\<close>, then a required transfer at position \<open>1\<close>;
  the candidate is one address restriction.  One repetition is found and \<open>bundled\<close> grows by
  \<open>1 * 1\<close>.  Going on at position \<open>0 + 1\<close> would refuse the candidate, since the required
  transfer is absent; the walk goes on at position \<open>0 + 1 + 1\<close>, never reads the entry at
  position \<open>1\<close>, and \<open>validate\<close> returns \<open>true\<close>.
\<close>

theorem validate_skips_entry_after_bundle:
  "validateBundle
     (bundle_of (sequence repeatable_then_required) 0
        \<lparr>type = MOSAIC_ADDRESS_RESTRICTION, required = True\<rparr> (repeatable_rule [1]))
     (js_slice [transaction_of_type MOSAIC_ADDRESS_RESTRICTION] (cursor_of 0 0 0)) = Inr 1
   \<and> length (bundle_of (sequence repeatable_then_required) 0
        \<lparr>type = MOSAIC_ADDRESS_RESTRICTION, required = True\<rparr> (repeatable_rule [1])) = 1
   \<and> validate_step repeatable_then_required
        [transaction_of_type MOSAIC_ADDRESS_RESTRICTION] (0, 0, 0) = Some (0 + 1 + 1, 0, 0 + 1 * 1)
   \<and> validate_loop repeatable_then_required
        [transaction_of_type MOSAIC_ADDRESS_RESTRICTION] (0 + 1) 0 (0 + 1 * 1) = Inr False
   \<and> validate_loop repeatable_then_required
        [transaction_of_type MOSAIC_ADDRESS_RESTRICTION] (0 + 1 + 1) 0 (0 + 1 * 1) = Inr True
   \<and> validate repeatable_then_required
        (aggregate_of [transaction_of_type MOSAIC_ADDRESS_RESTRICTION]) = Inr True"
  by (simp add: validate_step_def repeatable_then_required_def sample_simps)

section \<open>Properties of the contracts\<close>

subsection \<open>The argv parameter\<close>

lemma assertHasMandatoryArguments_argv:
  "assertHasMandatoryArguments ctx argv1 fs = assertHasMandatoryArguments ctx argv2 fs"
  by (induction fs) simp_all

text \<open>
  Claim C9.  The result of \<open>canExecute\<close> does not depend on the \<open>argv\<close> parameter: for the
  inherited \<open>Executable.canExecute\<close> (with any list of required arguments) and for each of
  the four contracts, two calls that differ only in \<open>argv\<close> return the same result or raise
  the same failure.  The inputs are read from the contract's stored context.
\<close>

theorem canExecute_ignores_argv:
  "Executable_canExecute fs c actor' argv1 = Executable_canExecute fs c actor' argv2
   \<and> CreateAgreement_canExecute c actor' argv1 = CreateAgreement_canExecute c actor' argv2
   \<and> CommitAgreement_canExecute c actor' argv1 = CommitAgreement_canExecute c actor' argv2
   \<and> CreateDAO_canExecute c actor' argv1 = CreateDAO_canExecute c actor' argv2
   \<and> CreateVote_canExecute c actor' argv1 = CreateVote_canExecute c actor' argv2"
  by (simp add: Executable_canExecute_def CreateAgreement_canExecute_def
        CommitAgreement_canExecute_def CreateDAO_canExecute_def CreateVote_canExecute_def
        assertHasMandatoryArguments_argv [of _ argv1 _ argv2])

subsection \<open>Authorization before an agreement\<close>

text \<open>The five names find their constructors in every state of the table.\<close>

lemma getContract_known:
  "getContract assigned gid ''CreateAgreement'' ctx
     = Inr (Contract (new_Executable CreateAgreement ctx gid))"
  "getContract assigned gid ''CommitAgreement'' ctx
     = Inr (Contract (new_Executable CommitAgreement ctx gid))"
  "getContract assigned gid ''CreateDAO'' ctx = Inr (Contract (new_Executable CreateDAO ctx gid))"
  "getContract assigned gid ''CreateVote'' ctx
     = Inr (Contract (new_Executable CreateVote ctx gid))"
  "getContract assigned gid ''Vote'' ctx = Inr (Contract (new_Executable Vote ctx gid))"
  by (simp_all add: getContract_def DigitalContracts_def)

lemma populate_fields:
  "cls (populate org (new_Executable k ctx gid)) = k"
  "exec_context (populate org (new_Executable k ctx gid)) = ctx"
  "agreement (populate org (new_Executable k ctx gid)) = org_agreement org"
  "target (populate org (new_Executable k ctx gid)) = ident_target gid"
  by (simp_all add: populate_def new_Executable_def)

text \<open>
  Claim C1, as the code has it.  For an organization whose agreement is unset and inputs
  that satisfy the contract's mandatory arguments: \<open>CreateAgreement\<close> allows; \<open>CreateDAO\<close>
  refuses; \<open>CommitAgreement\<close>, the contract that commits the agreement, allows exactly when
  the address of the \<open>target\<close> input is the address of the identifier's target (and raises
  when that input has no address).  This holds in every state of the table of contracts,
  and the call leaves the table as it was.
\<close>

theorem canExecute_without_agreement:
  assumes "org_agreement org = None"
  shows "(assertHasMandatoryArguments
            (getContext org actor' new_TransactionParameters (Some argv')) (Some argv')
            CreateAgreement_arguments = Inr True \<longrightarrow>
          org_canExecute ext assigned org actor' gid ''CreateAgreement'' argv'
            = (Inr (new_AllowanceResult True), assigned))
       \<and> (assertHasMandatoryArguments
            (getContext org actor' new_TransactionParameters (Some argv')) (Some argv')
            CreateDAO_arguments = Inr True \<longrightarrow>
          org_canExecute ext assigned org actor' gid ''CreateDAO'' argv'
            = (Inr (new_AllowanceResult False), assigned))
       \<and> (assertHasMandatoryArguments
            (getContext org actor' new_TransactionParameters (Some argv')) (Some argv')
            CommitAgreement_arguments = Inr True \<longrightarrow>
          org_canExecute ext assigned org actor' gid ''CommitAgreement'' argv'
            = (case address_of_value
                      (getInput (getContext org actor' new_TransactionParameters (Some argv'))
                         ''target'' (Account empty_PublicAccount)) of
                 None \<Rightarrow> Inl TypeError
               | Some a \<Rightarrow> Inr (new_AllowanceResult (address (ident_target gid) = Some a)),
               assigned))"
  using assms
  by (simp add: org_canExecute_def getContract_known canExecute_def populate_fields
        CreateAgreement_canExecute_def CreateDAO_canExecute_def CommitAgreement_canExecute_def
        address_equals_def split: option.splits)

theorem canExecute_without_agreement_witness:
  "org_agreement sample_organization = None
   \<and> assertHasMandatoryArguments
        (getContext sample_organization sample_operator new_TransactionParameters
           (Some agreement_options))
        (Some agreement_options) CreateAgreement_arguments = Inr True
   \<and> org_canExecute sample_External [] sample_organization sample_operator
        (org_identifier sample_organization) ''CreateAgreement'' agreement_options
       = (Inr (new_AllowanceResult True), [])
   \<and> assertHasMandatoryArguments
        (getContext sample_organization sample_operator new_TransactionParameters
           (Some dao_options))
        (Some dao_options) CreateDAO_arguments = Inr True
   \<and> org_canExecute sample_External [] sample_organization sample_operator
        (org_identifier sample_organization) ''CreateDAO'' dao_options
       = (Inr (new_AllowanceResult False), [])
   \<and> assertHasMandatoryArguments
        (getContext sample_organization sample_operator new_TransactionParameters
           (Some commit_options))
        (Some commit_options) CommitAgreement_arguments = Inr True
   \<and> org_canExecute sample_External [] sample_organization sample_operator
        (org_identifier sample_organization) ''CommitAgreement'' commit_options
       = (Inr (new_AllowanceResult True), [])"
proof -
  have h: "org_agreement sample_organization = None"
    by (simp add: sample_organization_def)
  have a: "assertHasMandatoryArguments
        (getContext sample_organization sample_operator new_TransactionParameters
           (Some agreement_options))
        (Some agreement_options) CreateAgreement_arguments = Inr True"
    by (simp add: contract_defs sample_contract_defs)
  have d: "assertHasMandatoryArguments
        (getContext sample_organization sample_operator new_TransactionParameters
           (Some dao_options))
        (Some dao_options) CreateDAO_arguments = Inr True"
    by (simp add: contract_defs sample_contract_defs)
  have c: "assertHasMandatoryArguments
        (getContext sample_organization sample_operator new_TransactionParameters
           (Some commit_options))
        (Some commit_options) CommitAgreement_arguments = Inr True"
    by (simp add: contract_defs sample_contract_defs)
  have t: "address_of_value
             (getInput (getContext sample_organization sample_operator
                          new_TransactionParameters (Some commit_options))
                ''target'' (Account empty_PublicAccount))
           = address (ident_target (org_identifier sample_organization))"
    "address (ident_target (org_identifier sample_organization)) \<noteq> None"
    by (simp_all add: contract_defs sample_contract_defs)
  show ?thesis
    using h a d c t
      canExecute_without_agreement [OF h, where actor' = sample_operator
        and argv' = agreement_options and ext = sample_External and assigned = "[]"
        and gid = "org_identifier sample_organization"]
      canExecute_without_agreement [OF h, where actor' = sample_operator
        and argv' = dao_options and ext = sample_External and assigned = "[]"
        and gid = "org_identifier sample_organization"]
      canExecute_without_agreement [OF h, where actor' = sample_operator
        and argv' = commit_options and ext = sample_External and assigned = "[]"
        and gid = "org_identifier sample_organization"]
    by (auto split: option.splits)
qed

text \<open>
  Claim C1 as stated fails: with no agreement, \<open>CommitAgreement\<close> allows the execution
  when the \<open>target\<close> input is the organization's target, as the repository's test
  "allow execution given no agreement and correct target" expects.
\<close>

theorem canExecute_without_agreement_counterexample:
  "org_agreement sample_organization = None
   \<and> assertHasMandatoryArguments
        (getContext sample_organization sample_operator new_TransactionParameters
           (Some commit_options))
        (Some commit_options) CommitAgreement_arguments = Inr True
   \<and> org_canExecute sample_External [] sample_organization sample_operator
        (org_identifier sample_organization) ''CommitAgreement'' commit_options
       = (Inr \<lparr>status = True, message = None\<rparr>, [])"
  by (simp add: contract_defs sample_contract_defs)

text \<open>\<open>CreateVote\<close> allows whenever its argument is present, agreement or not.\<close>

lemma CreateVote_always_allowed:
  "assertHasMandatoryArguments (exec_context c) argv' CreateVote_arguments = Inr True \<Longrightarrow>
   CreateVote_canExecute c actor' argv' = Inr (new_AllowanceResult True)"
  by (simp add: CreateVote_canExecute_def)

subsection \<open>execute\<close>

lemma string_of_nat_Suc_0: "string_of_nat (Suc 0) = ''1''"
  by (simp add: string_of_nat.simps [of "Suc 0"] digit_char_def)

text \<open>
  Claim C6.  \<open>execute\<close> runs the authorization check again.  When the check returns a
  negative status it raises \<open>FailureOperationForbidden\<close>; when the check passes and the
  list of transactions is empty it raises \<open>FailureEmptyContract\<close>; when the check passes,
  the list is not empty and the serialization of the contract returns a payload, it
  returns the transaction URI of that payload; and it returns a URI in no other case.
\<close>

theorem execute_checks:
  "(canExecute ext c actor' argv' = Inr r \<longrightarrow> \<not> status r \<longrightarrow>
      execute ext c actor' argv'
        = Inl (FailureOperationForbidden (''Operation forbidden ('' @ contract_name ext c @ '')'')))
   \<and> (canExecute ext c actor' argv' = Inr r \<longrightarrow> status r \<longrightarrow> transactions ext c = Inr [] \<longrightarrow>
      execute ext c actor' argv'
        = Inl (FailureEmptyContract
                 ''No transactions result from the execution of this contract.''))
   \<and> (canExecute ext c actor' argv' = Inr r \<longrightarrow> status r \<longrightarrow>
      transactions ext c = Inr txs \<longrightarrow> txs \<noteq> [] \<longrightarrow>
      serialize ext (createBonded txs) = Inr payload \<longrightarrow>
      execute ext c actor' argv' = Inr (TransactionURI payload))
   \<and> (execute ext c actor' argv' = Inr uri \<longrightarrow>
      (\<exists>r' txs' payload'. canExecute ext c actor' argv' = Inr r' \<and> status r'
         \<and> transactions ext c = Inr txs' \<and> txs' \<noteq> []
         \<and> serialize ext (createBonded txs') = Inr payload'
         \<and> uri = TransactionURI payload'))"
  by (auto simp: execute_def assertExecutionAllowance_def prepare_def
           split: sum.splits if_splits)

theorem execute_checks_witness:
  "canExecute sample_External dao_contract sample_operator None
     = Inr (new_AllowanceResult False)
   \<and> \<not> status (new_AllowanceResult False)
   \<and> execute sample_External dao_contract sample_operator None
       = Inl (FailureOperationForbidden ''Operation forbidden (CreateDAO)'')
   \<and> canExecute sample_External vote_contract sample_operator None
       = Inr (new_AllowanceResult True)
   \<and> status (new_AllowanceResult True)
   \<and> transactions sample_External vote_contract = Inr []
   \<and> execute sample_External vote_contract sample_operator None
       = Inl (FailureEmptyContract
                ''No transactions result from the execution of this contract.'')
   \<and> canExecute sample_External commit_contract sample_operator None
       = Inr (new_AllowanceResult True)
   \<and> transactions sample_External commit_contract
       = Inr (innerTransactions sample_confirmed_agreement)
   \<and> innerTransactions sample_confirmed_agreement \<noteq> []
   \<and> serialize sample_External (createBonded (innerTransactions sample_confirmed_agreement))
       = Inr ''PAYLOAD''
   \<and> execute sample_External commit_contract sample_operator None
       = Inr (TransactionURI ''PAYLOAD'')"
proof -
  have d: "canExecute sample_External dao_contract sample_operator None
     = Inr (new_AllowanceResult False)"
    by (simp add: dao_contract_def contract_defs sample_contract_defs)
  have n: "contract_name sample_External dao_contract = ''CreateDAO''"
    by (simp add: dao_contract_def contract_name_def new_Executable_def)
  have v: "canExecute sample_External vote_contract sample_operator None
       = Inr (new_AllowanceResult True)"
    by (simp add: vote_contract_def contract_defs sample_contract_defs)
  have vt: "transactions sample_External vote_contract = Inr []"
    by (simp add: vote_contract_def contract_defs)
  have c: "canExecute sample_External commit_contract sample_operator None
       = Inr (new_AllowanceResult True)"
    by (simp add: commit_contract_def contract_defs sample_contract_defs)
  have ct: "transactions sample_External commit_contract
       = Inr (innerTransactions sample_confirmed_agreement)"
    by (simp add: commit_contract_def contract_defs sample_contract_defs
          SECRET_PROOF_def TRANSFER_def string_of_nat_Suc_0)
  have ne: "innerTransactions sample_confirmed_agreement \<noteq> []"
    by (simp add: sample_confirmed_agreement_def)
  have p: "serialize sample_External
             (createBonded (innerTransactions sample_confirmed_agreement)) = Inr ''PAYLOAD''"
    by (simp add: sample_External_def sample_serialize_def createBonded_def
          sample_confirmed_agreement_def sample_agreement_def sample_target_def
          address_of_value_def)
  have s: "\<not> status (new_AllowanceResult False)" "status (new_AllowanceResult True)"
    by (simp_all add: new_AllowanceResult_def)
  have forbidden: "execute sample_External dao_contract sample_operator None
       = Inl (FailureOperationForbidden ''Operation forbidden (CreateDAO)'')"
    using d n s
      execute_checks [where ext = sample_External and c = dao_contract
        and actor' = sample_operator and argv' = None and r = "new_AllowanceResult False"
        and txs = "[]" and payload = "''''" and uri = "TransactionURI ''''"]
    by simp
  have empty: "execute sample_External vote_contract sample_operator None
       = Inl (FailureEmptyContract
                ''No transactions result from the execution of this contract.'')"
    using v vt s
      execute_checks [where ext = sample_External and c = vote_contract
        and actor' = sample_operator and argv' = None and r = "new_AllowanceResult True"
        and txs = "[]" and payload = "''''" and uri = "TransactionURI ''''"]
    by simp
  have wrapped: "execute sample_External commit_contract sample_operator None
       = Inr (TransactionURI ''PAYLOAD'')"
    using c ct ne p s
      execute_checks [where ext = sample_External and c = commit_contract
        and actor' = sample_operator and argv' = None and r = "new_AllowanceResult True"
        and txs = "innerTransactions sample_confirmed_agreement"
        and payload = "''PAYLOAD''" and uri = "TransactionURI ''''"]
    by blast
  show ?thesis
    using d v vt c ct ne p s forbidden empty wrapped by blast
qed

text \<open>
  The serialization is a failure of its own: for an \<^verbatim>\<open>agreement\<close> input that is an account
  without an address the check passes and three transactions are built, and
  \<^verbatim>\<open>execute\<close> raises the \<^verbatim>\<open>TypeError\<close> of the serialization.
\<close>

lemma execute_serialization_failure:
  "canExecute sample_External addressless_contract sample_operator None
     = Inr (new_AllowanceResult True)
   \<and> (\<exists>txs. transactions sample_External addressless_contract = Inr txs \<and> length txs = 3)
   \<and> execute sample_External addressless_contract sample_operator None = Inl TypeError"
proof -
  have c: "canExecute sample_External addressless_contract sample_operator None
       = Inr (new_AllowanceResult True)"
    by (simp add: addressless_contract_def contract_defs sample_contract_defs)
  have t: "\<exists>txs. transactions sample_External addressless_contract = Inr txs \<and> length txs = 3"
    by (simp add: addressless_contract_def contract_defs sample_contract_defs)
  have e: "execute sample_External addressless_contract sample_operator None = Inl TypeError"
    by (simp add: addressless_contract_def execute_def assertExecutionAllowance_def
          prepare_def createBonded_def contract_defs sample_contract_defs
          new_AllowanceResult_def)
  show ?thesis using c t e by simp
qed

section \<open>Properties of the organization\<close>

subsection \<open>Best-effort reads of synchronize\<close>

lemma read_operators_frame:
  "read_operators net (org\<lparr>org_agreement := a\<rparr>) = read_operators net org"
  "read_operators net (org\<lparr>org_mosaicInfo := m\<rparr>) = read_operators net org"
  by (simp_all add: read_operators_def)

lemma sync_mosaicInfo_fields:
  "org_target (sync_mosaicInfo net org) = org_target org"
  "org_operators (sync_mosaicInfo net org) = org_operators org"
  "org_metadata (sync_mosaicInfo net org) = org_metadata org"
  "org_mosaicInfo (sync_mosaicInfo net org) =
     (case getMosaic net (org_identifier org) of
        Inl e \<Rightarrow> org_mosaicInfo org
      | Inr (Errors e) \<Rightarrow> None
      | Inr (Emits info) \<Rightarrow> info)"
  "read_operators net (sync_mosaicInfo net org) = read_operators net org"
  by (simp_all add: sync_mosaicInfo_def read_operators_def
        split: sum.splits observable.splits)

lemma sync_operators_fields:
  "org_target (sync_operators net org) = org_target org"
  "org_mosaicInfo (sync_operators net org) = org_mosaicInfo org"
  "org_metadata (sync_operators net org) = org_metadata org"
  "org_operators (sync_operators net org) =
     (case read_operators net org of Inl e \<Rightarrow> org_operators org | Inr ops \<Rightarrow> ops)"
  by (simp_all add: sync_operators_def split: sum.splits)

lemma sync_metadata_fields:
  "org_mosaicInfo (sync_metadata net org) = org_mosaicInfo org"
  "org_operators (sync_metadata net org) = org_operators org"
  "org_metadata (sync_metadata net org) =
     (case readMetadataFromNetwork net (address (org_target org)) of
        Inl e \<Rightarrow> org_metadata org
      | Inr bucket \<Rightarrow> Some bucket)"
  by (simp_all add: sync_metadata_def split: sum.splits)

text \<open>
  Claim C7, as the code has it.  Once the agreement was read and found authentic,
  \<open>synchronize\<close> returns \<open>true\<close> whatever the three reads do, and each field depends on its
  own read only.  A failed operator read (or a graph with no cosignatories) leaves the
  operators at their previous value and a failed metadata read leaves the metadata at its
  previous value.  The mosaic information keeps its previous value only when the call
  raises before there is an observable; when the observable errors, \<^verbatim>\<open>catchError\<close> turns
  the error into \<^verbatim>\<open>undefined\<close>, which is assigned.
\<close>

theorem synchronize_best_effort:
  assumes "agreementHash org = Some hash" and "hash \<noteq> []"
    and "readTransactionFromNetwork net hash = Inr tx"
    and "verifyAuthenticity (getContext org (org_target org) new_TransactionParameters None)
           (org_identifier org) tx = Inr True"
  shows "fst (synchronize net org) = Inr True
       \<and> org_mosaicInfo (snd (synchronize net org)) =
           (case getMosaic net (org_identifier org) of
              Inl e \<Rightarrow> org_mosaicInfo org
            | Inr (Errors e) \<Rightarrow> None
            | Inr (Emits info) \<Rightarrow> info)
       \<and> org_operators (snd (synchronize net org)) =
           (case read_operators net org of Inl e \<Rightarrow> org_operators org | Inr ops \<Rightarrow> ops)
       \<and> org_metadata (snd (synchronize net org)) =
           (case readMetadataFromNetwork net (address (org_target org)) of
              Inl e \<Rightarrow> org_metadata org
            | Inr bucket \<Rightarrow> Some bucket)"
proof -
  let ?org1 = "org\<lparr>org_agreement := tx\<rparr>"
  have sync: "synchronize net org =
      (Inr True, sync_metadata net (sync_operators net (sync_mosaicInfo net ?org1)))"
    using assms by (simp add: synchronize_def)
  have id1: "org_identifier ?org1 = org_identifier org"
    by (simp add: org_identifier_def)
  show ?thesis
    by (simp add: sync sync_metadata_fields sync_operators_fields sync_mosaicInfo_fields
          read_operators_frame id1 split: sum.splits observable.splits)
qed

lemma sample_agreement_authentic:
  "verifyAuthenticity
     (getContext synchronized_organization (org_target synchronized_organization)
        new_TransactionParameters None)
     (org_identifier synchronized_organization) (Some sample_confirmed_agreement) = Inr True"
  by (simp add: verifyAuthenticity_def getContext_def org_identifier_def
        synchronized_organization_def sample_organization_def sample_confirmed_agreement_def
        sample_target_def CommitAgreement_descriptor_def Revision_def string_of_nat_Suc_0)

theorem synchronize_best_effort_witness:
  "agreementHash synchronized_organization = Some ''A1B2'' \<and> ''A1B2'' \<noteq> []
   \<and> readTransactionFromNetwork failing_reads ''A1B2'' = Inr (Some sample_confirmed_agreement)
   \<and> verifyAuthenticity
        (getContext synchronized_organization (org_target synchronized_organization)
           new_TransactionParameters None)
        (org_identifier synchronized_organization) (Some sample_confirmed_agreement) = Inr True
   \<and> fst (synchronize failing_reads synchronized_organization) = Inr True
   \<and> org_operators (snd (synchronize failing_reads synchronized_organization))
       = org_operators synchronized_organization
   \<and> org_metadata (snd (synchronize failing_reads synchronized_organization))
       = org_metadata synchronized_organization"
proof -
  have h: "agreementHash synchronized_organization = Some ''A1B2''"
    by (simp add: synchronized_organization_def)
  have ne: "''A1B2'' \<noteq> []" by simp
  have r: "readTransactionFromNetwork failing_reads ''A1B2''
             = Inr (Some sample_confirmed_agreement)"
    by (simp add: failing_reads_def)
  have ops: "read_operators failing_reads synchronized_organization = Inl NetworkError"
    by (simp add: read_operators_def failing_reads_def)
  have md: "readMetadataFromNetwork failing_reads
              (address (org_target synchronized_organization)) = Inl NetworkError"
    by (simp add: failing_reads_def)
  show ?thesis
    using h ne r ops md sample_agreement_authentic
      synchronize_best_effort [OF h ne r sample_agreement_authentic]
    by simp
qed

text \<open>
  Claim C7 as stated fails for the mosaic information: the organization held a value from
  an earlier synchronization, the mosaic read errors, \<open>synchronize\<close> returns \<open>true\<close> and the
  field is unset, not left at its previous value.
\<close>

theorem synchronize_mosaic_reset_counterexample:
  "org_mosaicInfo synchronized_organization = Some \<lparr>mosaic_id = ''9e03faed''\<rparr>
   \<and> getMosaic failing_reads (org_identifier synchronized_organization)
       = Inr (Errors NetworkError)
   \<and> fst (synchronize failing_reads synchronized_organization) = Inr True
   \<and> org_mosaicInfo (snd (synchronize failing_reads synchronized_organization)) = None"
proof -
  have "synchronize failing_reads synchronized_organization =
      (Inr True,
       sync_metadata failing_reads
         (sync_operators failing_reads
            (sync_mosaicInfo failing_reads
               (synchronized_organization\<lparr>org_agreement := Some sample_confirmed_agreement\<rparr>))))"
    using sample_agreement_authentic
    by (simp add: synchronize_def synchronized_organization_def failing_reads_def)
  moreover have "getMosaic failing_reads ident = Inr (Errors NetworkError)" for ident
    by (simp add: failing_reads_def)
  moreover have "org_mosaicInfo synchronized_organization = Some \<lparr>mosaic_id = ''9e03faed''\<rparr>"
    by (simp add: synchronized_organization_def)
  ultimately show ?thesis
    by (simp add: sync_metadata_fields sync_operators_fields sync_mosaicInfo_fields)
qed

subsection \<open>Unknown contract names\<close>

lemma getContract_unknown:
  assumes "contract \<notin> {''CreateAgreement'', ''CommitAgreement'', ''CreateDAO'',
                          ''CreateVote'', ''Vote''}"
    and "contract \<notin> set Object_prototype_properties"
    and "contract \<notin> set (Map_keys assigned)"
  shows "getContract assigned gid contract ctx
           = Inl (FailureInvalidContract ''Invalid digital contract name.'')"
proof -
  have "map_of assigned contract = None"
    using assms(3) by (simp add: Map_keys_def map_of_eq_None_iff)
  then show ?thesis
    using assms(1,2)
    by (auto simp: getContract_def DigitalContracts_def Map_get_def
          Object_prototype_properties_def)
qed

text \<open>
  The table only ever gains the four assigned names: whatever is dispatched, the
  properties of the table after the call are those before it and, at most, \<^verbatim>\<open>mosaicInfo\<close>,
  \<^verbatim>\<open>operators\<close>, \<^verbatim>\<open>agreement\<close> and \<^verbatim>\<open>metadata\<close>.
\<close>

lemma populate_table_keys:
  "set (Map_keys (populate_table org assigned)) = set (Map_keys assigned) \<union> set assigned_names"
  by (auto simp: populate_table_def Map_keys_def assigned_names_def AList.dom_update)

lemma org_canExecute_keys:
  "set (Map_keys (snd (org_canExecute ext assigned org actor' gid contract argv')))
     \<subseteq> set (Map_keys assigned) \<union> set assigned_names"
  by (auto simp: org_canExecute_def populate_table_keys
        split: sum.splits dispatched.splits)

lemma org_executeOffline_keys:
  "set (Map_keys (snd (org_executeOffline ext assigned org actor' gid contract parameters'
                         argv')))
     \<subseteq> set (Map_keys assigned) \<union> set assigned_names"
  by (auto simp: org_executeOffline_def populate_table_keys
        split: sum.splits dispatched.splits)

lemma org_execute_keys:
  "set (Map_keys (snd (snd (org_execute ext net assigned org actor' gid contract parameters'
                              argv'))))
     \<subseteq> set (Map_keys assigned) \<union> set assigned_names"
proof (cases "synchronize net org")
  case (Pair r org')
  show ?thesis
  proof (cases r)
    case (Inl e)
    with Pair show ?thesis by (simp add: org_execute_def)
  next
    case (Inr b)
    with Pair show ?thesis
      using org_executeOffline_keys [of ext assigned org' actor' gid contract parameters' argv']
      by (simp add: org_execute_def)
  qed
qed

text \<open>
  The table is written by the repository's own dispatch: the name \<^verbatim>\<open>valueOf\<close> reaches the
  table, the four assignments fill it, and from then on the name \<^verbatim>\<open>operators\<close>, which is
  none of the five names and no inherited property, raises \<^verbatim>\<open>TypeError\<close>.
\<close>

lemma assigned_name_not_rejected:
  "org_canExecute ext [] org actor' gid ''valueOf'' argv'
     = (Inl TypeError, populate_table org [])
   \<and> ''operators'' \<notin> {''CreateAgreement'', ''CommitAgreement'', ''CreateDAO'',
                        ''CreateVote'', ''Vote''}
   \<and> ''operators'' \<notin> set Object_prototype_properties
   \<and> org_canExecute ext (populate_table org []) org actor' gid ''operators'' argv'
       = (Inl TypeError, populate_table org [])"
  by (simp add: org_canExecute_def getContract_def DigitalContracts_def Map_get_def
        populate_table_def truthy_def Object_prototype_properties_def)

text \<open>
  Claim C8, as the code has it.  The table of contracts is a mutable object and is carried
  as state.  For a name that is none of the five contract names, no inherited property of a
  plain object and no property that has been assigned to the table, in the state at hand,
  \<open>canExecute\<close> and \<open>executeOffline\<close> of the organization raise \<open>FailureInvalidContract\<close> from
  \<open>getContract\<close>: no contract exists, so nothing is copied into one, the table is left as
  it was and no authorization runs, whatever the actor, the inputs and the contracts'
  implementations are.  \<open>execute\<close> synchronizes first: a failure of \<open>synchronize\<close> is raised
  as it is, and only after a successful synchronization is \<open>FailureInvalidContract\<close>
  raised; the organization is left as \<open>synchronize\<close> left it.
\<close>

theorem unknown_contract_rejected:
  assumes "contract \<notin> {''CreateAgreement'', ''CommitAgreement'', ''CreateDAO'',
                          ''CreateVote'', ''Vote''}"
    and "contract \<notin> set Object_prototype_properties"
    and "contract \<notin> set (Map_keys assigned)"
  shows "org_canExecute ext assigned org actor' gid contract argv'
           = (Inl (FailureInvalidContract ''Invalid digital contract name.''), assigned)
       \<and> org_executeOffline ext assigned org actor' gid contract parameters' argv'
           = (Inl (FailureInvalidContract ''Invalid digital contract name.''), assigned)
       \<and> org_execute ext net assigned org actor' gid contract parameters' argv'
           = (case fst (synchronize net org) of
                Inl e \<Rightarrow> Inl e
              | Inr synchronized \<Rightarrow>
                  Inl (FailureInvalidContract ''Invalid digital contract name.''),
              snd (synchronize net org), assigned)"
  using getContract_unknown [OF assms]
  by (simp add: org_canExecute_def org_executeOffline_def org_execute_def
           split: prod.splits sum.splits)

theorem unknown_contract_rejected_witness:
  "''Unknown'' \<notin> {''CreateAgreement'', ''CommitAgreement'', ''CreateDAO'',
                    ''CreateVote'', ''Vote''}
   \<and> ''Unknown'' \<notin> set Object_prototype_properties
   \<and> ''Unknown'' \<notin> set (Map_keys (populate_table sample_organization []))
   \<and> org_canExecute sample_External (populate_table sample_organization [])
        sample_organization sample_operator
        (org_identifier sample_organization) ''Unknown'' commit_options
       = (Inl (FailureInvalidContract ''Invalid digital contract name.''),
          populate_table sample_organization [])
   \<and> org_executeOffline sample_External (populate_table sample_organization [])
        sample_organization sample_operator
        (org_identifier sample_organization) ''Unknown'' new_TransactionParameters
        commit_options
       = (Inl (FailureInvalidContract ''Invalid digital contract name.''),
          populate_table sample_organization [])
   \<and> org_execute sample_External no_agreement_found (populate_table sample_organization [])
        sample_organization sample_operator
        (org_identifier sample_organization) ''Unknown'' new_TransactionParameters
        commit_options
       = (Inl (FailureInvalidContract ''Invalid digital contract name.''),
          sample_organization, populate_table sample_organization [])"
proof -
  have a: "''Unknown'' \<notin> {''CreateAgreement'', ''CommitAgreement'', ''CreateDAO'',
                    ''CreateVote'', ''Vote''}"
    by simp
  have b: "''Unknown'' \<notin> set Object_prototype_properties"
    by (simp add: Object_prototype_properties_def)
  have c: "''Unknown'' \<notin> set (Map_keys (populate_table sample_organization []))"
    by (simp add: populate_table_def Map_keys_def)
  have s: "synchronize no_agreement_found sample_organization = (Inr True, sample_organization)"
    by (simp add: synchronize_def sample_organization_def)
  show ?thesis
    using a b c
      unknown_contract_rejected [OF a b c, where ext = sample_External
        and org = sample_organization and actor' = sample_operator
        and gid = "org_identifier sample_organization" and argv' = commit_options
        and parameters' = new_TransactionParameters and net = no_agreement_found]
    by (simp add: s)
qed

text \<open>
  Claim C8 as stated fails for \<open>execute\<close>: with an agreement hash under which the network
  finds no transaction, dispatching an unknown name raises \<open>FailureInvalidAgreement\<close>, from
  the synchronization that runs before the lookup.
\<close>

theorem unknown_contract_after_synchronize_counterexample:
  "''Unknown'' \<notin> {''CreateAgreement'', ''CommitAgreement'', ''CreateDAO'',
                    ''CreateVote'', ''Vote''}
   \<and> fst (org_execute sample_External no_agreement_found []
            (sample_organization\<lparr>agreementHash := Some ''A1B2''\<rparr>) sample_operator
            (org_identifier sample_organization) ''Unknown'' new_TransactionParameters
            commit_options)
       = Inl (FailureInvalidAgreement
                ''Authenticity verification failed for DAO launch agreement.'')"
  by (simp add: org_execute_def synchronize_def verifyAuthenticity_def
        no_agreement_found_def sample_organization_def)

end
